theory Spec2Isabelle
  imports Complex_Main "HOL-Library.Word"
begin

section \<open>Numbers and typed arrays\<close>

text \<open>
  JavaScript numbers (the ratio, the error bound, the elements of a Float32Array) are
  carried as rationals. The embedding copies and compares them; the only arithmetic it
  does on them is the target count of \<open>simplifyPrimitive\<close>, taken exactly.
\<close>

type_synonym number = rat

datatype typed_array =
    Float32Array "number list"
  | Uint32Array "32 word list"
  | Uint16Array "16 word list"
  | Uint8Array "8 word list"
  | Int16Array "16 word list"
  | Int8Array "8 word list"

datatype component_type = BYTE | UNSIGNED_BYTE | SHORT | UNSIGNED_SHORT | UNSIGNED_INT | FLOAT

datatype accessor_type = SCALAR | VEC2 | VEC3 | VEC4 | MAT2 | MAT3 | MAT4

fun array_length :: "typed_array \<Rightarrow> nat" where
  "array_length (Float32Array xs) = length xs"
| "array_length (Uint32Array xs) = length xs"
| "array_length (Uint16Array xs) = length xs"
| "array_length (Uint8Array xs) = length xs"
| "array_length (Int16Array xs) = length xs"
| "array_length (Int8Array xs) = length xs"

text \<open>The numeric values of an array's elements, as JavaScript reads them.\<close>

fun array_values :: "typed_array \<Rightarrow> number list" where
  "array_values (Float32Array xs) = xs"
| "array_values (Uint32Array xs) = map (\<lambda>w. of_nat (unat w)) xs"
| "array_values (Uint16Array xs) = map (\<lambda>w. of_nat (unat w)) xs"
| "array_values (Uint8Array xs) = map (\<lambda>w. of_nat (unat w)) xs"
| "array_values (Int16Array xs) = map (\<lambda>w. of_int (sint w)) xs"
| "array_values (Int8Array xs) = map (\<lambda>w. of_int (sint w)) xs"

fun is_Float32Array :: "typed_array \<Rightarrow> bool" where
  "is_Float32Array (Float32Array xs) = True"
| "is_Float32Array _ = False"

fun is_Uint32Array :: "typed_array \<Rightarrow> bool" where
  "is_Uint32Array (Uint32Array xs) = True"
| "is_Uint32Array _ = False"

text \<open>
  \<open>new Uint32Array(array)\<close>: every element converted to an unsigned 32-bit integer
  (a fraction is truncated towards zero, the integer is taken modulo \<open>2 ^ 32\<close>).
\<close>

definition number_to_uint32 :: "number \<Rightarrow> 32 word" where
  "number_to_uint32 q = word_of_int (if 0 \<le> q then \<lfloor>q\<rfloor> else \<lceil>q\<rceil>)"

fun new_Uint32Array :: "typed_array \<Rightarrow> 32 word list" where
  "new_Uint32Array (Float32Array xs) = map number_to_uint32 xs"
| "new_Uint32Array (Uint32Array xs) = xs"
| "new_Uint32Array (Uint16Array xs) = map ucast xs"
| "new_Uint32Array (Uint8Array xs) = map ucast xs"
| "new_Uint32Array (Int16Array xs) = map scast xs"
| "new_Uint32Array (Int8Array xs) = map scast xs"

text \<open>\<open>new Uint16Array(array)\<close> of a Uint32Array: each element modulo \<open>2 ^ 16\<close>.\<close>

definition new_Uint16Array :: "32 word list \<Rightarrow> 16 word list" where
  "new_Uint16Array xs = map ucast xs"

section \<open>The document\<close>

text \<open>
  Modelled from the spec: the scene-graph document (package \<open>core\<close>) is not among the
  source files. Section 3 of the specification gives its entities: a mesh is an ordered
  collection of primitives; a primitive has a draw mode, an optional index accessor, named
  attribute accessors and morph targets whose attributes may alias the same accessors; an
  accessor is a typed buffer shared by reference. Accessors and primitives live in stores
  keyed by identity; a reference is a key.
\<close>

datatype mode = POINTS | LINES | LINE_LOOP | LINE_STRIP | TRIANGLES | TRIANGLE_STRIP | TRIANGLE_FAN

record accessor =
  array :: typed_array
  elementType :: accessor_type
  normalized :: bool

record primitive =
  mode :: mode
  indices :: "nat option"
  attributes :: "(string \<times> nat) list"
  targets :: "(string \<times> nat) list list"

record mesh =
  mesh_name :: string
  mesh_primitives :: "nat list"

datatype log_entry =
    Warn_unsupported_draw_mode string
  | Debug_vertices nat nat "number option"
  | Debug_complete

record document =
  meshes :: "(nat \<times> mesh) list"
  primitives :: "(nat \<times> primitive) list"
  accessors :: "(nat \<times> accessor) list"
  nextId :: nat
  logger :: "log_entry list"

fun getElementSize :: "accessor_type \<Rightarrow> nat" where
  "getElementSize SCALAR = 1"
| "getElementSize VEC2 = 2"
| "getElementSize VEC3 = 3"
| "getElementSize VEC4 = 4"
| "getElementSize MAT2 = 4"
| "getElementSize MAT3 = 9"
| "getElementSize MAT4 = 16"

definition getCount :: "accessor \<Rightarrow> nat" where
  "getCount a = array_length (array a) div getElementSize (elementType a)"

fun arrayComponentType :: "typed_array \<Rightarrow> component_type" where
  "arrayComponentType (Float32Array xs) = FLOAT"
| "arrayComponentType (Uint32Array xs) = UNSIGNED_INT"
| "arrayComponentType (Uint16Array xs) = UNSIGNED_SHORT"
| "arrayComponentType (Uint8Array xs) = UNSIGNED_BYTE"
| "arrayComponentType (Int16Array xs) = SHORT"
| "arrayComponentType (Int8Array xs) = BYTE"

definition getComponentType :: "accessor \<Rightarrow> component_type" where
  "getComponentType a = arrayComponentType (array a)"

text \<open>\<open>getComponentSize\<close>: the bytes of one component of the array.\<close>

fun arrayComponentSize :: "typed_array \<Rightarrow> nat" where
  "arrayComponentSize (Float32Array xs) = 4"
| "arrayComponentSize (Uint32Array xs) = 4"
| "arrayComponentSize (Uint16Array xs) = 2"
| "arrayComponentSize (Uint8Array xs) = 1"
| "arrayComponentSize (Int16Array xs) = 2"
| "arrayComponentSize (Int8Array xs) = 1"

definition getComponentSize :: "accessor \<Rightarrow> nat" where
  "getComponentSize a = arrayComponentSize (array a)"

definition getAccessor :: "document \<Rightarrow> nat \<Rightarrow> accessor option" where
  "getAccessor d a = map_of (accessors d) a"

definition getPrimitive :: "document \<Rightarrow> nat \<Rightarrow> primitive option" where
  "getPrimitive d p = map_of (primitives d) p"

definition getMesh :: "document \<Rightarrow> nat \<Rightarrow> mesh option" where
  "getMesh d m = map_of (meshes d) m"

text \<open>
  A getter that follows a reference returns the object referred to: its key with its
  fields. A reference that resolves to no accessor of the document reads as \<open>null\<close>.
\<close>

definition resolve :: "document \<Rightarrow> nat \<Rightarrow> (nat \<times> accessor) option" where
  "resolve d a = map_option (Pair a) (getAccessor d a)"

definition getMode :: "document \<Rightarrow> nat \<Rightarrow> mode option" where
  "getMode d p = map_option mode (getPrimitive d p)"

definition getIndices :: "document \<Rightarrow> nat \<Rightarrow> (nat \<times> accessor) option" where
  "getIndices d p =
     (case getPrimitive d p of
        None \<Rightarrow> None
      | Some pr \<Rightarrow> (case indices pr of None \<Rightarrow> None | Some a \<Rightarrow> resolve d a))"

definition getAttribute :: "document \<Rightarrow> nat \<Rightarrow> string \<Rightarrow> (nat \<times> accessor) option" where
  "getAttribute d p semantic =
     (case getPrimitive d p of
        None \<Rightarrow> None
      | Some pr \<Rightarrow> (case map_of (attributes pr) semantic of None \<Rightarrow> None | Some a \<Rightarrow> resolve d a))"

definition listPrimitives :: "document \<Rightarrow> nat \<Rightarrow> nat list" where
  "listPrimitives d m = (case getMesh d m of None \<Rightarrow> [] | Some me \<Rightarrow> mesh_primitives me)"

definition listMeshes :: "document \<Rightarrow> nat list" where
  "listMeshes d = map fst (meshes d)"

definition getName :: "document \<Rightarrow> nat \<Rightarrow> string" where
  "getName d m = (case getMesh d m of None \<Rightarrow> [] | Some me \<Rightarrow> mesh_name me)"

subsection \<open>Parents of an accessor\<close>

text \<open>
  Modelled from the spec: an accessor keeps a list of what points at it, one entry for
  each primitive and each morph target. In the document model every accessor of the
  document is linked from the document root as well, and \<open>listParents\<close> lists the root
  with the rest; this is why the test \<open>listParents().length === 1\<close>, which the source
  makes after the references have been swapped away, reads "nothing but the document
  still holds it".
\<close>

datatype parent = Parent_Root | Parent_Primitive nat | Parent_Target nat nat

definition primitiveRefs :: "primitive \<Rightarrow> nat list" where
  "primitiveRefs pr = (case indices pr of None \<Rightarrow> [] | Some a \<Rightarrow> [a]) @ map snd (attributes pr)"

definition primitiveParents :: "nat \<Rightarrow> nat \<times> primitive \<Rightarrow> parent list" where
  "primitiveParents a = (\<lambda>(p, pr).
     (if a \<in> set (primitiveRefs pr) then [Parent_Primitive p] else []) @
     map (Parent_Target p)
       (filter (\<lambda>k. a \<in> set (map snd (targets pr ! k))) [0 ..< length (targets pr)]))"

definition listParents :: "document \<Rightarrow> nat \<Rightarrow> parent list" where
  "listParents d a =
     (if getAccessor d a = None then [] else [Parent_Root]) @
     concat (map (primitiveParents a) (primitives d))"

subsection \<open>Mutations\<close>

definition warn :: "log_entry \<Rightarrow> document \<Rightarrow> document" where
  "warn e d = d\<lparr>logger := logger d @ [e]\<rparr>"

definition debug :: "log_entry \<Rightarrow> document \<Rightarrow> document" where
  "debug e d = d\<lparr>logger := logger d @ [e]\<rparr>"

definition updatePrimitive :: "nat \<Rightarrow> (primitive \<Rightarrow> primitive) \<Rightarrow> document \<Rightarrow> document" where
  "updatePrimitive p f d =
     d\<lparr>primitives := map (\<lambda>(k, pr). if k = p then (k, f pr) else (k, pr)) (primitives d)\<rparr>"

definition createAccessor :: "accessor \<Rightarrow> document \<Rightarrow> nat \<times> document" where
  "createAccessor acc d =
     (nextId d, d\<lparr>accessors := accessors d @ [(nextId d, acc)], nextId := Suc (nextId d)\<rparr>)"

definition setArray :: "nat \<Rightarrow> typed_array \<Rightarrow> document \<Rightarrow> document" where
  "setArray a arr d =
     d\<lparr>accessors := map (\<lambda>(k, acc). if k = a then (k, acc\<lparr>array := arr\<rparr>) else (k, acc)) (accessors d)\<rparr>"

definition setIndices :: "nat \<Rightarrow> nat option \<Rightarrow> document \<Rightarrow> document" where
  "setIndices p a = updatePrimitive p (\<lambda>pr. pr\<lparr>indices := a\<rparr>)"

text \<open>\<open>swap\<close>: every reference of the primitive itself (index or attribute) to \<open>old\<close> becomes \<open>new\<close>.\<close>

definition swapRef :: "nat \<Rightarrow> nat \<Rightarrow> nat \<Rightarrow> nat" where
  "swapRef old new a = (if a = old then new else a)"

definition swapAttributes :: "nat \<Rightarrow> nat \<Rightarrow> (string \<times> nat) list \<Rightarrow> (string \<times> nat) list" where
  "swapAttributes old new = map (\<lambda>(semantic, a). (semantic, swapRef old new a))"

definition swapPrimitive :: "nat \<Rightarrow> nat \<Rightarrow> primitive \<Rightarrow> primitive" where
  "swapPrimitive old new pr =
     pr\<lparr>indices := map_option (swapRef old new) (indices pr),
        attributes := swapAttributes old new (attributes pr)\<rparr>"

definition swapTargets :: "nat \<Rightarrow> nat \<Rightarrow> primitive \<Rightarrow> primitive" where
  "swapTargets old new pr = pr\<lparr>targets := map (swapAttributes old new) (targets pr)\<rparr>"

text \<open>
  \<open>dispose\<close> of an accessor: it leaves the document, and whatever still pointed at it
  points at nothing.
\<close>

definition detach :: "nat \<Rightarrow> primitive \<Rightarrow> primitive" where
  "detach a pr =
     pr\<lparr>indices := (if indices pr = Some a then None else indices pr),
        attributes := filter (\<lambda>(semantic, b). b \<noteq> a) (attributes pr),
        targets := map (filter (\<lambda>(semantic, b). b \<noteq> a)) (targets pr)\<rparr>"

definition disposeAccessor :: "nat \<Rightarrow> document \<Rightarrow> document" where
  "disposeAccessor a d =
     d\<lparr>accessors := filter (\<lambda>(k, acc). k \<noteq> a) (accessors d),
       primitives := map (\<lambda>(k, pr). (k, detach a pr)) (primitives d)\<rparr>"

text \<open>
  \<open>dispose\<close> of a primitive: it leaves every mesh and lets go of its accessors. The
  object itself stays (a loop that still holds it can read its mode), with no reference
  left on it.
\<close>

definition disposePrimitive :: "nat \<Rightarrow> document \<Rightarrow> document" where
  "disposePrimitive p d =
     d\<lparr>primitives :=
         map (\<lambda>(k, pr). if k = p then (k, pr\<lparr>indices := None, attributes := [], targets := []\<rparr>) else (k, pr))
           (primitives d),
       meshes :=
         map (\<lambda>(k, me). (k, me\<lparr>mesh_primitives := filter (\<lambda>q. q \<noteq> p) (mesh_primitives me)\<rparr>))
           (meshes d)\<rparr>"

definition disposeMesh :: "nat \<Rightarrow> document \<Rightarrow> document" where
  "disposeMesh m d = d\<lparr>meshes := filter (\<lambda>(k, me). k \<noteq> m) (meshes d)\<rparr>"

subsection \<open>Helpers of the functions package\<close>

text \<open>
  Modelled from the spec: \<open>deepListAttributes\<close>, \<open>deepSwapAttribute\<close>,
  \<open>shallowCloneAccessor\<close> and \<open>remapAttribute\<close> (\<open>utils.js\<close>) are not among the source
  files. Section 4.2: the deep listing gives every attribute accessor reachable from the
  primitive, those of its morph targets included, without repetition; the swap replaces
  every reference to the source within the primitive and its morph targets; the clone
  is a new accessor with the metadata and the buffer of its source; the remap builds a
  buffer of \<open>U\<close> elements and copies element \<open>i\<close> into slot \<open>R[i]\<close> wherever that slot
  exists.
\<close>

fun uniq :: "nat list \<Rightarrow> nat list" where
  "uniq [] = []"
| "uniq (x # xs) = x # filter (\<lambda>y. y \<noteq> x) (uniq xs)"

definition deepListAttributes :: "document \<Rightarrow> nat \<Rightarrow> (nat \<times> accessor) list" where
  "deepListAttributes d p =
     (case getPrimitive d p of
        None \<Rightarrow> []
      | Some pr \<Rightarrow>
          List.map_filter (resolve d)
            (uniq (map snd (attributes pr) @ concat (map (map snd) (targets pr)))))"

definition deepSwapAttribute :: "nat \<Rightarrow> nat \<Rightarrow> nat \<Rightarrow> document \<Rightarrow> document" where
  "deepSwapAttribute p old new = updatePrimitive p (\<lambda>pr. swapTargets old new (swapPrimitive old new pr))"

definition shallowCloneAccessor :: "nat \<times> accessor \<Rightarrow> document \<Rightarrow> (nat \<times> accessor) \<times> document" where
  "shallowCloneAccessor src d = (case createAccessor (snd src) d of (k, d') \<Rightarrow> ((k, snd src), d'))"

definition remapList :: "nat \<Rightarrow> 32 word list \<Rightarrow> nat \<Rightarrow> 'a list \<Rightarrow> 'a list" where
  "remapList elementSize remap dstCount src =
     fold (\<lambda>i dst.
            if i < length remap
            then fold (\<lambda>j dst'. dst'[unat (remap ! i) * elementSize + j := src ! (i * elementSize + j)])
                   [0 ..< elementSize] dst
            else dst)
       [0 ..< length src div elementSize]
       (take (dstCount * elementSize) src)"

fun remapArray :: "nat \<Rightarrow> 32 word list \<Rightarrow> nat \<Rightarrow> typed_array \<Rightarrow> typed_array" where
  "remapArray n remap u (Float32Array xs) = Float32Array (remapList n remap u xs)"
| "remapArray n remap u (Uint32Array xs) = Uint32Array (remapList n remap u xs)"
| "remapArray n remap u (Uint16Array xs) = Uint16Array (remapList n remap u xs)"
| "remapArray n remap u (Uint8Array xs) = Uint8Array (remapList n remap u xs)"
| "remapArray n remap u (Int16Array xs) = Int16Array (remapList n remap u xs)"
| "remapArray n remap u (Int8Array xs) = Int8Array (remapList n remap u xs)"

definition remapAttribute :: "nat \<times> accessor \<Rightarrow> 32 word list \<Rightarrow> nat \<Rightarrow> document \<Rightarrow> document" where
  "remapAttribute attribute remap dstCount =
     setArray (fst attribute)
       (remapArray (getElementSize (elementType (snd attribute))) remap dstCount (array (snd attribute)))"

text \<open>
  Modelled from the spec: \<open>isTransformPending\<close> (\<open>utils.js\<close>) is not among the source
  files. The shared context of a pipeline lists the names of its passes in order; a pass
  is pending after another when its last occurrence comes later. With no context nothing
  is pending.
\<close>

record TransformContext =
  stack :: "string list"

definition lastIndexOf :: "string list \<Rightarrow> string \<Rightarrow> int" where
  "lastIndexOf xs x =
     (case filter (\<lambda>i. xs ! i = x) (rev [0 ..< length xs]) of [] \<Rightarrow> - 1 | i # _ \<Rightarrow> int i)"

definition isTransformPending :: "TransformContext option \<Rightarrow> string \<Rightarrow> string \<Rightarrow> bool" where
  "isTransformPending ctx initial pending =
     (case ctx of
        None \<Rightarrow> False
      | Some c \<Rightarrow> lastIndexOf (stack c) initial < lastIndexOf (stack c) pending)"

section \<open>External collaborators\<close>

text \<open>
  The decimator (\<open>meshoptimizer\<close>) is given by its entry points; each may throw, which is
  the left injection with the message. \<open>ext_simplifyPoints\<close> is optional and reads the
  experimental-features toggle of the decimator. \<open>ext_compactMesh\<close> rewrites the index array
  it is given in place: it returns the rewritten indices with the remap table and the
  count of unique vertices. \<open>ready\<close> is the promise awaited before use: it resolves
  (\<open>None\<close>) or rejects with a message.
\<close>

datatype flag = LockBorder

record simplifier =
  ready :: "string option"
  ext_simplify ::
    "32 word list \<Rightarrow> number list \<Rightarrow> nat \<Rightarrow> int \<Rightarrow> number \<Rightarrow> flag list \<Rightarrow> string + (32 word list \<times> number)"
  ext_simplifyPoints ::
    "(bool \<Rightarrow> number list \<Rightarrow> nat \<Rightarrow> int \<Rightarrow> number list option \<Rightarrow> nat option \<Rightarrow> string + 32 word list) option"
  ext_compactMesh :: "32 word list \<Rightarrow> string + (32 word list \<times> 32 word list \<times> nat)"

datatype PropertyType = ACCESSOR | NODE | MESH | PRIMITIVE | MATERIAL | TEXTURE | SCENE | BUFFER

record WeldOptions =
  overwrite :: bool

record PruneOptions =
  propertyTypes :: "PropertyType list"
  keepAttributes :: bool
  keepIndices :: bool
  keepLeaves :: bool

record DedupOptions =
  dedup_propertyTypes :: "PropertyType list"

datatype pass = Weld WeldOptions | Prune PruneOptions | Dedup DedupOptions

text \<open>
  The sub-pipelines \<open>weld\<close>, \<open>prune\<close> and \<open>dedup\<close>, and the helpers
  \<open>dequantizeAttributeArray\<close> and \<open>unweldPrimitive\<close>, are other modules of the package:
  parameters here. A sub-pipeline returns the document as it left it and, when it threw,
  the message.
\<close>

record env =
  weld :: "WeldOptions \<Rightarrow> document \<Rightarrow> string option \<times> document"
  prune :: "PruneOptions \<Rightarrow> document \<Rightarrow> string option \<times> document"
  dedup :: "DedupOptions \<Rightarrow> document \<Rightarrow> string option \<times> document"
  dequantizeAttributeArray :: "typed_array \<Rightarrow> component_type \<Rightarrow> bool \<Rightarrow> number list"
  unweldPrimitive :: "nat \<Rightarrow> document \<Rightarrow> document"

section \<open>State, errors and calls\<close>

datatype error =
    Error string
  | TypeError string
  | External string

datatype call =
    Call_ready
  | Call_transform pass
  | Call_simplify "32 word list" "number list" nat int number "flag list"
  | Call_simplifyPoints bool "number list" nat int "number list option" "nat option"
  | Call_compactMesh "32 word list"

text \<open>
  The state a run works on: the document, the decimator's process-wide toggle, and the
  calls made to the collaborators so far, in order.
\<close>

record state =
  doc :: document
  useExperimentalFeatures :: bool
  calls :: "call list"

type_synonym 'a prog = "state \<Rightarrow> (error + 'a) \<times> state"

definition ret :: "'a \<Rightarrow> 'a prog" where
  "ret x = (\<lambda>s. (Inr x, s))"

definition bindE :: "'a prog \<Rightarrow> ('a \<Rightarrow> 'b prog) \<Rightarrow> 'b prog" where
  "bindE m k = (\<lambda>s. case m s of (Inl e, s') \<Rightarrow> (Inl e, s') | (Inr x, s') \<Rightarrow> k x s')"

definition onDoc :: "(document \<Rightarrow> document) \<Rightarrow> unit prog" where
  "onDoc f = (\<lambda>s. (Inr (), s\<lparr>doc := f (doc s)\<rparr>))"

fun forEach :: "'a list \<Rightarrow> ('a \<Rightarrow> unit prog) \<Rightarrow> unit prog" where
  "forEach [] body = ret ()"
| "forEach (x # xs) body = bindE (body x) (\<lambda>_. forEach xs body)"

definition logCall :: "call \<Rightarrow> state \<Rightarrow> state" where
  "logCall c s = s\<lparr>calls := calls s @ [c]\<rparr>"

definition external :: "string + 'a \<Rightarrow> state \<Rightarrow> (error + 'a) \<times> state" where
  "external r s = (case r of Inl msg \<Rightarrow> (Inl (External msg), s) | Inr x \<Rightarrow> (Inr x, s))"

definition awaitReady :: "simplifier \<Rightarrow> unit prog" where
  "awaitReady simp s =
     (case ready simp of
        None \<Rightarrow> (Inr (), logCall Call_ready s)
      | Some msg \<Rightarrow> (Inl (External msg), logCall Call_ready s))"

definition runPass :: "env \<Rightarrow> pass \<Rightarrow> document \<Rightarrow> string option \<times> document" where
  "runPass e p = (case p of Weld w \<Rightarrow> weld e w | Prune q \<Rightarrow> prune e q | Dedup x \<Rightarrow> dedup e x)"

text \<open>\<open>await document.transform(pass)\<close>.\<close>

definition transform :: "env \<Rightarrow> pass \<Rightarrow> unit prog" where
  "transform e p s =
     (case runPass e p (doc s) of
        (None, d') \<Rightarrow> (Inr (), (logCall (Call_transform p) s)\<lparr>doc := d'\<rparr>)
      | (Some msg, d') \<Rightarrow> (Inl (External msg), (logCall (Call_transform p) s)\<lparr>doc := d'\<rparr>))"

definition call_simplify ::
  "simplifier \<Rightarrow> 32 word list \<Rightarrow> number list \<Rightarrow> nat \<Rightarrow> int \<Rightarrow> number \<Rightarrow> flag list \<Rightarrow> (32 word list \<times> number) prog"
where
  "call_simplify simp is ps stride target err flags s =
     external (ext_simplify simp is ps stride target err flags)
       (logCall (Call_simplify is ps stride target err flags) s)"

definition call_compactMesh :: "simplifier \<Rightarrow> 32 word list \<Rightarrow> (32 word list \<times> 32 word list \<times> nat) prog" where
  "call_compactMesh simp is s = external (ext_compactMesh simp is) (logCall (Call_compactMesh is) s)"

definition call_simplifyPoints ::
  "simplifier \<Rightarrow> number list \<Rightarrow> nat \<Rightarrow> int \<Rightarrow> number list option \<Rightarrow> nat option \<Rightarrow> 32 word list prog"
where
  "call_simplifyPoints simp ps stride target colors colorStride s =
     (case ext_simplifyPoints simp of
        None \<Rightarrow> (Inl (TypeError ''simplifier.simplifyPoints is not a function''), s)
      | Some f \<Rightarrow>
          external (f (useExperimentalFeatures s) ps stride target colors colorStride)
            (logCall (Call_simplifyPoints (useExperimentalFeatures s) ps stride target colors colorStride) s))"

section \<open>The transform\<close>

subsection \<open>Options\<close>

text \<open>
  \<open>SimplifyOptions\<close>: every field may be left out (\<open>simplifier\<close> is typed \<open>unknown\<close>; what is
  falsy there is \<open>None\<close>). \<open>withDefaults\<close> is the spread
  \<open>{ ...SIMPLIFY_DEFAULTS, ..._options }\<close>.
\<close>

record SimplifyOptions =
  simplifier :: "simplifier option"
  ratio :: "number option"
  error :: "number option"
  lockBorder :: "bool option"

record RequiredOptions =
  r_simplifier :: "simplifier option"
  r_ratio :: number
  r_error :: number
  r_lockBorder :: bool

definition NAME :: string where
  "NAME = ''simplify''"

definition withDefaults :: "SimplifyOptions \<Rightarrow> RequiredOptions" where
  "withDefaults opts =
     \<lparr>r_simplifier = simplifier opts,
      r_ratio = (case ratio opts of None \<Rightarrow> 0 | Some r \<Rightarrow> r),
      r_error = (case error opts of None \<Rightarrow> 1 / 10000 | Some e \<Rightarrow> e),
      r_lockBorder = (case lockBorder opts of None \<Rightarrow> False | Some b \<Rightarrow> b)\<rparr>"

text \<open>The defaulted options, handed on where \<open>SimplifyOptions\<close> are expected.\<close>

definition asOptions :: "RequiredOptions \<Rightarrow> SimplifyOptions" where
  "asOptions r =
     \<lparr>simplifier = r_simplifier r, ratio = Some (r_ratio r), error = Some (r_error r),
      lockBorder = Some (r_lockBorder r)\<rparr>"

subsection \<open>Writing the compacted attributes and indices\<close>

text \<open>The body of the loops of lines 173-178 and 227-232.\<close>

definition writeAttribute :: "nat \<Rightarrow> 32 word list \<Rightarrow> nat \<Rightarrow> nat \<times> accessor \<Rightarrow> document \<Rightarrow> document" where
  "writeAttribute prim remap unique srcAttribute d =
     (case shallowCloneAccessor srcAttribute d of
        (dstAttribute, d1) \<Rightarrow>
          let d2 = remapAttribute dstAttribute remap unique d1;
              d3 = deepSwapAttribute prim (fst srcAttribute) (fst dstAttribute) d2
          in if length (listParents d3 (fst srcAttribute)) = 1
             then disposeAccessor (fst srcAttribute) d3 else d3)"

definition writeAttributes :: "nat \<Rightarrow> 32 word list \<Rightarrow> nat \<Rightarrow> document \<Rightarrow> document" where
  "writeAttributes prim remap unique d =
     fold (writeAttribute prim remap unique) (deepListAttributes d prim) d"

text \<open>Lines 182-185.\<close>

definition writeIndices :: "nat \<Rightarrow> nat \<times> accessor \<Rightarrow> nat \<Rightarrow> 32 word list \<Rightarrow> document \<Rightarrow> document" where
  "writeIndices prim srcIndices srcVertexCount dstIndicesArray d =
     (case shallowCloneAccessor srcIndices d of
        (dstIndices, d1) \<Rightarrow>
          let d2 = setArray (fst dstIndices)
                     (if srcVertexCount \<le> 65534 then Uint16Array (new_Uint16Array dstIndicesArray)
                      else Uint32Array dstIndicesArray) d1;
              d3 = setIndices prim (Some (fst dstIndices)) d2
          in if length (listParents d3 (fst srcIndices)) = 1
             then disposeAccessor (fst srcIndices) d3 else d3)"

subsection \<open>Point mode\<close>

definition toFloat32 :: "env \<Rightarrow> typed_array \<Rightarrow> component_type \<Rightarrow> bool \<Rightarrow> number list" where
  "toFloat32 e arr ct nrm =
     (if is_Float32Array arr then array_values arr else dequantizeAttributeArray e arr ct nrm)"

definition priv_simplifyPoints :: "env \<Rightarrow> RequiredOptions \<Rightarrow> nat \<Rightarrow> unit prog" where
  "priv_simplifyPoints e options prim = (\<lambda>s.
     let s1 = (if getIndices (doc s) prim \<noteq> None then s\<lparr>doc := unweldPrimitive e prim (doc s)\<rparr> else s)
     in (case getAttribute (doc s1) prim ''POSITION'' of
          None \<Rightarrow> (Inl (TypeError ''position is null''), s1)
        | Some position \<Rightarrow>
            let color = getAttribute (doc s1) prim ''COLOR_0'';
                srcVertexCount = getCount (snd position);
                colorStride = map_option (\<lambda>c. getComponentSize (snd c)) color;
                positionArray =
                  toFloat32 e (array (snd position)) (getComponentType (snd position))
                    (normalized (snd position));
                colorArray =
                  map_option
                    (\<lambda>c. toFloat32 e (array (snd c)) (getComponentType (snd position))
                           (normalized (snd position)))
                    color
            in (case r_simplifier options of
                 None \<Rightarrow> (Inl (TypeError ''simplifier is undefined''), s1)
               | Some simp \<Rightarrow>
                   let s2 = s1\<lparr>useExperimentalFeatures := True\<rparr>;
                       targetCount = \<lfloor>r_ratio options * of_nat srcVertexCount\<rfloor>
                   in bindE (call_simplifyPoints simp positionArray 3 targetCount colorArray colorStride)
                        (\<lambda>dstIndicesArray.
                         bindE (\<lambda>s3. (Inr (), s3\<lparr>useExperimentalFeatures := False\<rparr>))
                        (\<lambda>_.
                         bindE (call_compactMesh simp dstIndicesArray)
                        (\<lambda>(compacted, remap, unique).
                         bindE (onDoc (debug (Debug_vertices (getCount (snd position)) unique None)))
                        (\<lambda>_.
                         onDoc (writeAttributes prim remap unique))))) s2)))"

subsection \<open>Triangle mode\<close>

definition targetIndexCount :: "number \<Rightarrow> nat \<Rightarrow> int" where
  "targetIndexCount r srcIndexCount = \<lfloor>r * of_nat srcIndexCount / 3\<rfloor> * 3"

definition simplifyTriangles ::
  "env \<Rightarrow> RequiredOptions \<Rightarrow> nat \<Rightarrow> nat \<times> accessor \<Rightarrow> nat \<times> accessor \<Rightarrow> unit prog"
where
  "simplifyTriangles e options prim position srcIndices = (\<lambda>s.
     let srcIndexCount = getCount (snd srcIndices);
         srcVertexCount = getCount (snd position);
         positionArray =
           toFloat32 e (array (snd position)) (getComponentType (snd position))
             (normalized (snd position));
         indicesArray = new_Uint32Array (array (snd srcIndices));
         targetCount = targetIndexCount (r_ratio options) srcIndexCount;
         flags = (if r_lockBorder options then [LockBorder] else [])
     in (case r_simplifier options of
           None \<Rightarrow> (Inl (TypeError ''simplifier is undefined''), s)
         | Some simp \<Rightarrow>
             bindE (call_simplify simp indicesArray positionArray 3 targetCount (r_error options) flags)
               (\<lambda>(dstIndicesArray, err).
                bindE (call_compactMesh simp dstIndicesArray)
               (\<lambda>(compacted, remap, unique).
                bindE (onDoc (debug (Debug_vertices (getCount (snd position)) unique (Some err))))
               (\<lambda>_.
                bindE (onDoc (writeAttributes prim remap unique))
               (\<lambda>_.
                onDoc (writeIndices prim srcIndices srcVertexCount compacted))))) s))"

definition simplifyPrimitive :: "env \<Rightarrow> SimplifyOptions \<Rightarrow> nat \<Rightarrow> unit prog" where
  "simplifyPrimitive e opts prim = (\<lambda>s.
     let options = withDefaults opts
     in if getMode (doc s) prim = Some POINTS then priv_simplifyPoints e options prim s
        else
          (case getIndices (doc s) prim of
             None \<Rightarrow> (Inl (TypeError ''srcIndices is null''), s)
           | Some srcIndices \<Rightarrow>
               (case getAttribute (doc s) prim ''POSITION'' of
                  None \<Rightarrow> (Inl (TypeError ''position is null''), s)
                | Some position \<Rightarrow> simplifyTriangles e options prim position srcIndices s)))"

subsection \<open>The pipeline\<close>

text \<open>Lines 93-101: one primitive of one mesh.\<close>

definition simplifyMeshPrimitive :: "env \<Rightarrow> RequiredOptions \<Rightarrow> simplifier \<Rightarrow> nat \<Rightarrow> nat \<Rightarrow> unit prog" where
  "simplifyMeshPrimitive e options simp m prim = (\<lambda>s.
     if getMode (doc s) prim = Some TRIANGLES then
       bindE (simplifyPrimitive e (asOptions options) prim)
         (\<lambda>_ s1. case getIndices (doc s1) prim of
                   None \<Rightarrow> (Inl (TypeError ''prim.getIndices() is null''), s1)
                 | Some ix \<Rightarrow>
                     if getCount (snd ix) = 0 then onDoc (disposePrimitive prim) s1 else (Inr (), s1)) s
     else if getMode (doc s) prim = Some POINTS \<and> ext_simplifyPoints simp \<noteq> None then
       bindE (simplifyPrimitive e (asOptions options) prim)
         (\<lambda>_ s1. case getAttribute (doc s1) prim ''POSITION'' of
                   None \<Rightarrow> (Inl (TypeError ''prim.getAttribute(POSITION) is null''), s1)
                 | Some position \<Rightarrow>
                     if getCount (snd position) = 0 then onDoc (disposePrimitive prim) s1 else (Inr (), s1)) s
     else onDoc (warn (Warn_unsupported_draw_mode (getName (doc s) m))) s)"

text \<open>Lines 92-104: one mesh.\<close>

definition simplifyMesh :: "env \<Rightarrow> RequiredOptions \<Rightarrow> simplifier \<Rightarrow> nat \<Rightarrow> unit prog" where
  "simplifyMesh e options simp m = (\<lambda>s.
     bindE (forEach (listPrimitives (doc s) m) (simplifyMeshPrimitive e options simp m))
       (\<lambda>_ s1. if listPrimitives (doc s1) m = [] then onDoc (disposeMesh m) s1 else (Inr (), s1)) s)"

text \<open>Lines 91-105.\<close>

definition simplifyMeshes :: "env \<Rightarrow> RequiredOptions \<Rightarrow> simplifier \<Rightarrow> unit prog" where
  "simplifyMeshes e options simp = (\<lambda>s. forEach (listMeshes (doc s)) (simplifyMesh e options simp) s)"

definition pruneOptions :: PruneOptions where
  "pruneOptions =
     \<lparr>propertyTypes = [ACCESSOR, NODE], keepAttributes = True, keepIndices = True, keepLeaves = False\<rparr>"

text \<open>
  \<open>simplify\<close> returns the transform, or throws when the options hold no decimator. The
  transform takes the pipeline's shared context, when there is one.
\<close>

definition simplify :: "env \<Rightarrow> SimplifyOptions \<Rightarrow> error + (TransformContext option \<Rightarrow> unit prog)" where
  "simplify e opts =
     (let options = withDefaults opts
      in case r_simplifier options of
           None \<Rightarrow> Inl (Error ''simplify: simplifier dependency required'')
         | Some simp \<Rightarrow>
             Inr (\<lambda>ctx.
               bindE (awaitReady simp)
              (\<lambda>_.
               bindE (transform e (Weld \<lparr>overwrite = False\<rparr>))
              (\<lambda>_.
               bindE (simplifyMeshes e options simp)
              (\<lambda>_.
               bindE (transform e (Prune pruneOptions))
              (\<lambda>_.
               bindE (if \<not> isTransformPending ctx NAME ''dedup''
                      then transform e (Dedup \<lparr>dedup_propertyTypes = [ACCESSOR]\<rparr>)
                      else ret ())
              (\<lambda>_.
               onDoc (debug Debug_complete))))))))"

text \<open>\<open>await document.transform(simplify(options))\<close>: the call of \<open>simplify\<close> comes first.\<close>

definition transform_simplify :: "env \<Rightarrow> SimplifyOptions \<Rightarrow> TransformContext option \<Rightarrow> unit prog" where
  "transform_simplify e opts ctx s =
     (case simplify e opts of Inl err \<Rightarrow> (Inl err, s) | Inr t \<Rightarrow> t ctx s)"

section \<open>Well-formed documents and derived notions\<close>

definition allRefs :: "primitive \<Rightarrow> nat list" where
  "allRefs pr = primitiveRefs pr @ concat (map (map snd) (targets pr))"

definition wf_document :: "document \<Rightarrow> bool" where
  "wf_document d \<longleftrightarrow>
     list_all (\<lambda>ka. fst ka < nextId d) (accessors d) \<and>
     list_all (\<lambda>kp. list_all (\<lambda>a. getAccessor d a \<noteq> None) (allRefs (snd kp))) (primitives d)"

definition conditionalDispose :: "nat \<Rightarrow> document \<Rightarrow> document" where
  "conditionalDispose a d = (if length (listParents d a) = 1 then disposeAccessor a d else d)"

definition install :: "nat \<Rightarrow> (primitive \<Rightarrow> primitive) \<Rightarrow> accessor \<Rightarrow> typed_array \<Rightarrow> document \<Rightarrow> document" where
  "install prim f acc arr d = updatePrimitive prim f (setArray (nextId d) arr (snd (createAccessor acc d)))"

definition replaceStep ::
  "nat \<Rightarrow> nat \<Rightarrow> (primitive \<Rightarrow> primitive) \<Rightarrow> accessor \<Rightarrow> typed_array \<Rightarrow> document \<Rightarrow> document" where
  "replaceStep a prim f acc arr d = conditionalDispose a (install prim f acc arr d)"

definition triangleFlags :: "RequiredOptions \<Rightarrow> flag list" where
  "triangleFlags options = (if r_lockBorder options then [LockBorder] else [])"

definition positionArrayOf :: "env \<Rightarrow> nat \<times> accessor \<Rightarrow> number list" where
  "positionArrayOf e position =
     toFloat32 e (array (snd position)) (getComponentType (snd position)) (normalized (snd position))"

definition simplifyCall :: "env \<Rightarrow> RequiredOptions \<Rightarrow> nat \<times> accessor \<Rightarrow> nat \<times> accessor \<Rightarrow> call" where
  "simplifyCall e options position srcIndices =
     Call_simplify (new_Uint32Array (array (snd srcIndices))) (positionArrayOf e position) 3
       (targetIndexCount (r_ratio options) (getCount (snd srcIndices))) (r_error options)
       (triangleFlags options)"

definition simplifyResult ::
  "env \<Rightarrow> simplifier \<Rightarrow> RequiredOptions \<Rightarrow> nat \<times> accessor \<Rightarrow> nat \<times> accessor \<Rightarrow> string + (32 word list \<times> number)" where
  "simplifyResult e simp options position srcIndices =
     ext_simplify simp (new_Uint32Array (array (snd srcIndices))) (positionArrayOf e position) 3
       (targetIndexCount (r_ratio options) (getCount (snd srcIndices))) (r_error options)
       (triangleFlags options)"

definition frames :: "nat \<Rightarrow> document \<Rightarrow> document \<Rightarrow> bool" where
  "frames prim d d' \<longleftrightarrow>
     wf_document d' \<and> meshes d' = meshes d \<and> map fst (primitives d') = map fst (primitives d) \<and>
     nextId d \<le> nextId d' \<and>
     (\<forall>q. q \<noteq> prim \<longrightarrow> getPrimitive d' q = getPrimitive d q) \<and>
     (\<forall>q pq x accx. q \<noteq> prim \<longrightarrow> getPrimitive d q = Some pq \<longrightarrow> x \<in> set (allRefs pq) \<longrightarrow>
        getAccessor d x = Some accx \<longrightarrow> getAccessor d' x = Some accx)"


definition pointsTarget :: "RequiredOptions \<Rightarrow> nat \<times> accessor \<Rightarrow> int" where
  "pointsTarget options position = \<lfloor>r_ratio options * of_nat (getCount (snd position))\<rfloor>"

definition colorArrayOf :: "env \<Rightarrow> nat \<times> accessor \<Rightarrow> (nat \<times> accessor) option \<Rightarrow> number list option" where
  "colorArrayOf e position color =
     map_option
       (\<lambda>c. toFloat32 e (array (snd c)) (getComponentType (snd position)) (normalized (snd position)))
       color"

definition colorStrideOf :: "(nat \<times> accessor) option \<Rightarrow> nat option" where
  "colorStrideOf color = map_option (\<lambda>c. getComponentSize (snd c)) color"

definition pointsCall :: "env \<Rightarrow> RequiredOptions \<Rightarrow> nat \<times> accessor \<Rightarrow> (nat \<times> accessor) option \<Rightarrow> call" where
  "pointsCall e options position color =
     Call_simplifyPoints True (positionArrayOf e position) 3 (pointsTarget options position)
       (colorArrayOf e position color) (colorStrideOf color)"

definition unwelded :: "env \<Rightarrow> nat \<Rightarrow> state \<Rightarrow> state" where
  "unwelded e prim s =
     (if getIndices (doc s) prim \<noteq> None then s\<lparr>doc := unweldPrimitive e prim (doc s)\<rparr> else s)"

definition indexComponentType :: "document \<Rightarrow> nat \<Rightarrow> component_type option" where
  "indexComponentType d p = map_option (\<lambda>ix. getComponentType (snd ix)) (getIndices d p)"

definition narrowed :: "nat \<Rightarrow> 32 word list \<Rightarrow> typed_array" where
  "narrowed srcVertexCount c =
     (if srcVertexCount \<le> 65534 then Uint16Array (new_Uint16Array c) else Uint32Array c)"

definition attrRefs :: "primitive \<Rightarrow> nat list" where
  "attrRefs pr = map snd (attributes pr) @ concat (map (map snd) (targets pr))"









section \<open>Example inputs\<close>

definition decodeNormalized :: "component_type \<Rightarrow> number \<Rightarrow> number" where
  "decodeNormalized ct v =
     (case ct of
        UNSIGNED_BYTE \<Rightarrow> v / 255
      | UNSIGNED_SHORT \<Rightarrow> v / 65535
      | BYTE \<Rightarrow> max (v / 127) (- 1)
      | SHORT \<Rightarrow> max (v / 32767) (- 1)
      | _ \<Rightarrow> v)"

definition env_ex :: env where
  "env_ex =
     \<lparr>weld = (\<lambda>w d. (None, d)), prune = (\<lambda>q d. (None, d)), dedup = (\<lambda>x d. (None, d)),
      dequantizeAttributeArray =
        (\<lambda>arr ct nrm. if nrm then map (decodeNormalized ct) (array_values arr) else array_values arr),
      unweldPrimitive = (\<lambda>p d. d)\<rparr>"

definition state_of :: "document \<Rightarrow> state" where
  "state_of d = \<lparr>doc = d, useExperimentalFeatures = False, calls = []\<rparr>"

definition options_of :: "simplifier option \<Rightarrow> SimplifyOptions" where
  "options_of simp = \<lparr>simplifier = simp, ratio = None, error = None, lockBorder = None\<rparr>"


definition doc_quad :: document where
  "doc_quad =
     \<lparr>meshes = [(0, \<lparr>mesh_name = ''quad'', mesh_primitives = [0]\<rparr>)],
      primitives = [(0, \<lparr>mode = TRIANGLES, indices = Some 1,
                         attributes = [(''POSITION'', 0)], targets = []\<rparr>)],
      accessors = [(0, \<lparr>array = Float32Array [0, 0, 0, 1, 0, 0, 1, 1, 0, 0, 1, 0], elementType = VEC3,
                         normalized = False\<rparr>),
                   (1, \<lparr>array = Uint16Array [0, 1, 2, 0, 2, 3], elementType = SCALAR, normalized = False\<rparr>)],
      nextId = 2, logger = []\<rparr>"

fun index_of :: "nat list \<Rightarrow> nat \<Rightarrow> nat option" where
  "index_of [] v = None"
| "index_of (x # xs) v = (if x = v then Some 0 else map_option Suc (index_of xs v))"

definition compact_remap :: "32 word list \<Rightarrow> 32 word list" where
  "compact_remap is =
     map (\<lambda>v. case index_of (uniq (map unat is)) v of None \<Rightarrow> - 1 | Some k \<Rightarrow> of_nat k)
       [0 ..< Suc (fold max (map unat is) 0)]"

definition simplifier_ex :: simplifier where
  "simplifier_ex =
     \<lparr>ready = None,
      ext_simplify = (\<lambda>is ps stride target err flags.
         Inr (take (3 * (min (nat target) (length is) div 3)) is, 0)),
      ext_simplifyPoints = Some (\<lambda>toggle ps stride target colors colorStride.
         Inr (map of_nat [0 ..< min (nat target) (length ps div stride)])),
      ext_compactMesh = (\<lambda>is.
         Inr (map (\<lambda>i. compact_remap is ! unat i) is, compact_remap is, length (uniq (map unat is))))\<rparr>"

definition options_ex :: "simplifier \<Rightarrow> number \<Rightarrow> SimplifyOptions" where
  "options_ex simp r = \<lparr>simplifier = Some simp, ratio = Some r, error = None, lockBorder = None\<rparr>"

definition big_positions :: "number list" where
  "big_positions = replicate 196605 0"

definition doc_big :: document where
  "doc_big =
     \<lparr>meshes = [(0, \<lparr>mesh_name = ''big'', mesh_primitives = [0]\<rparr>)],
      primitives = [(0, \<lparr>mode = TRIANGLES, indices = Some 1,
                         attributes = [(''POSITION'', 0)], targets = []\<rparr>)],
      accessors = [(0, \<lparr>array = Float32Array big_positions, elementType = VEC3, normalized = False\<rparr>),
                   (1, \<lparr>array = Uint32Array [0, 1, 2], elementType = SCALAR, normalized = False\<rparr>)],
      nextId = 2, logger = []\<rparr>"

definition doc_shared :: document where
  "doc_shared =
     \<lparr>meshes = [(0, \<lparr>mesh_name = ''shared'', mesh_primitives = [0, 1]\<rparr>)],
      primitives = [(0, \<lparr>mode = TRIANGLES, indices = Some 1,
                         attributes = [(''POSITION'', 0)], targets = []\<rparr>),
                    (1, \<lparr>mode = TRIANGLES, indices = Some 2,
                         attributes = [(''POSITION'', 0)], targets = []\<rparr>)],
      accessors = [(0, \<lparr>array = Float32Array [0, 0, 0, 1, 0, 0, 1, 1, 0, 0, 1, 0], elementType = VEC3,
                         normalized = False\<rparr>),
                   (1, \<lparr>array = Uint16Array [0, 1, 2, 0, 2, 3], elementType = SCALAR, normalized = False\<rparr>),
                   (2, \<lparr>array = Uint16Array [0, 2, 3], elementType = SCALAR, normalized = False\<rparr>)],
      nextId = 3, logger = []\<rparr>"


definition simplifier_throwing :: simplifier where
  "simplifier_throwing =
     \<lparr>ready = None,
      ext_simplify = (\<lambda>is ps stride target err flags. Inl ''simplify failed''),
      ext_simplifyPoints = Some (\<lambda>toggle ps stride target colors colorStride. Inl ''simplifyPoints failed''),
      ext_compactMesh = (\<lambda>is. Inl ''compactMesh failed'')\<rparr>"

definition doc_points :: document where
  "doc_points =
     \<lparr>meshes = [(0, \<lparr>mesh_name = ''cloud'', mesh_primitives = [0]\<rparr>)],
      primitives = [(0, \<lparr>mode = POINTS, indices = None,
                         attributes = [(''POSITION'', 0), (''COLOR_0'', 1)], targets = []\<rparr>)],
      accessors = [(0, \<lparr>array = Float32Array [0, 0, 0, 1, 0, 0], elementType = VEC3, normalized = False\<rparr>),
                   (1, \<lparr>array = Uint8Array [255, 0, 0, 0, 255, 0], elementType = VEC3, normalized = True\<rparr>)],
      nextId = 2, logger = []\<rparr>"













section \<open>Lemmas\<close>

lemma wf_documentI:
  "(\<And>k acc. (k, acc) \<in> set (accessors d) \<Longrightarrow> k < nextId d) \<Longrightarrow>
   (\<And>p pr a. (p, pr) \<in> set (primitives d) \<Longrightarrow> a \<in> set (allRefs pr) \<Longrightarrow> getAccessor d a \<noteq> None) \<Longrightarrow>
   wf_document d"
  by (auto simp: wf_document_def list_all_iff)

lemma wf_keys: "wf_document d \<Longrightarrow> (k, acc) \<in> set (accessors d) \<Longrightarrow> k < nextId d"
  by (auto simp: wf_document_def list_all_iff)

lemma wf_refs: "wf_document d \<Longrightarrow> (p, pr) \<in> set (primitives d) \<Longrightarrow> a \<in> set (allRefs pr) \<Longrightarrow> getAccessor d a \<noteq> None"
  by (auto simp: wf_document_def list_all_iff)

lemma getAccessor_lt: "wf_document d \<Longrightarrow> getAccessor d a = Some acc \<Longrightarrow> a < nextId d"
  unfolding getAccessor_def by (drule map_of_SomeD) (rule wf_keys)

lemma getAccessor_nextId: "wf_document d \<Longrightarrow> getAccessor d (nextId d) = None"
  using getAccessor_lt by (cases "getAccessor d (nextId d)") fastforce+

lemma primitiveParents_Nil: "primitiveParents a (p, pr) = [] \<longleftrightarrow> a \<notin> set (allRefs pr)"
proof -
  have "filter (\<lambda>k. a \<in> set (map snd (targets pr ! k))) [0 ..< length (targets pr)] = []
        \<longleftrightarrow> a \<notin> set (concat (map (map snd) (targets pr)))"
  proof -
    have "(\<exists>k < length (targets pr). a \<in> set (map snd (targets pr ! k))) \<longleftrightarrow>
          (\<exists>t \<in> set (targets pr). a \<in> set (map snd t))"
      by (metis in_set_conv_nth)
    then show ?thesis by (auto simp: filter_empty_conv)
  qed
  then show ?thesis
    by (auto simp: primitiveParents_def allRefs_def)
qed

lemma listParents_one:
  assumes "wf_document d"
  shows "length (listParents d a) = 1 \<longleftrightarrow>
         getAccessor d a \<noteq> None \<and> (\<forall>(p, pr) \<in> set (primitives d). a \<notin> set (allRefs pr))"
proof (cases "getAccessor d a")
  case None
  then have "\<forall>(p, pr) \<in> set (primitives d). a \<notin> set (allRefs pr)"
    using wf_refs [OF assms] by blast
  then have "\<forall>x \<in> set (primitives d). primitiveParents a x = []"
    using primitiveParents_Nil by fastforce
  then have c: "concat (map (primitiveParents a) (primitives d)) = []"
    by simp
  have "listParents d a = []" unfolding listParents_def c using None by simp
  then show ?thesis using None by simp
next
  case (Some acc)
  have "(\<forall>x \<in> set (primitives d). primitiveParents a x = []) \<longleftrightarrow>
        (\<forall>(p, pr) \<in> set (primitives d). a \<notin> set (allRefs pr))"
    using primitiveParents_Nil by fastforce
  then have c: "concat (map (primitiveParents a) (primitives d)) = [] \<longleftrightarrow>
        (\<forall>(p, pr) \<in> set (primitives d). a \<notin> set (allRefs pr))"
    by simp
  have "length (listParents d a) = 1 \<longleftrightarrow> concat (map (primitiveParents a) (primitives d)) = []"
    unfolding listParents_def using Some by simp
  then show ?thesis using Some c by simp
qed

lemma detach_unreferenced: "a \<notin> set (allRefs pr) \<Longrightarrow> detach a pr = pr"
proof -
  assume a: "a \<notin> set (allRefs pr)"
  have 1: "indices pr \<noteq> Some a" using a by (auto simp: allRefs_def primitiveRefs_def)
  have 2: "filter (\<lambda>(semantic, b). b \<noteq> a) (attributes pr) = attributes pr"
    using a by (force simp: allRefs_def primitiveRefs_def filter_id_conv)
  have 3: "map (filter (\<lambda>(semantic, b). b \<noteq> a)) (targets pr) = targets pr"
  proof (rule map_idI)
    fix t assume "t \<in> set (targets pr)"
    then have "a \<notin> snd ` set t" using a by (auto simp: allRefs_def)
    then show "filter (\<lambda>(semantic, b). b \<noteq> a) t = t" by (force simp: filter_id_conv)
  qed
  show ?thesis unfolding detach_def using 1 2 3 by simp
qed

lemma conditionalDispose_primitives:
  assumes "wf_document d"
  shows "primitives (conditionalDispose a d) = primitives d"
proof (cases "length (listParents d a) = 1")
  case True
  then have "\<forall>(p, pr) \<in> set (primitives d). a \<notin> set (allRefs pr)"
    using listParents_one [OF assms] by simp
  then have "map (\<lambda>(k, pr). (k, detach a pr)) (primitives d) = primitives d"
    by (intro map_idI) (auto simp: detach_unreferenced)
  with True show ?thesis by (simp add: conditionalDispose_def disposeAccessor_def)
next
  case False
  then show ?thesis by (simp add: conditionalDispose_def)
qed

lemma conditionalDispose_fields:
  "meshes (conditionalDispose a d) = meshes d"
  "nextId (conditionalDispose a d) = nextId d"
  "logger (conditionalDispose a d) = logger d"
  by (simp_all add: conditionalDispose_def disposeAccessor_def)

lemma map_of_filter_neq: "x \<noteq> a \<Longrightarrow> map_of (filter (\<lambda>(k, v). k \<noteq> a) xs) x = map_of xs x"
  by (induction xs) auto

lemma map_of_filter_eq: "map_of (filter (\<lambda>(k, v). k \<noteq> a) xs) a = None"
  by (induction xs) auto

lemma conditionalDispose_getAccessor:
  "getAccessor (conditionalDispose a d) x =
     (if x = a \<and> length (listParents d a) = 1 then None else getAccessor d x)"
  by (simp add: conditionalDispose_def disposeAccessor_def getAccessor_def map_of_filter_neq map_of_filter_eq)

lemma conditionalDispose_wf:
  assumes "wf_document d"
  shows "wf_document (conditionalDispose a d)"
proof (rule wf_documentI)
  fix k acc assume "(k, acc) \<in> set (accessors (conditionalDispose a d))"
  then have "(k, acc) \<in> set (accessors d)"
    by (auto simp: conditionalDispose_def disposeAccessor_def split: if_splits)
  then show "k < nextId (conditionalDispose a d)"
    using wf_keys [OF assms] by (simp add: conditionalDispose_fields)
next
  fix p pr x
  assume "(p, pr) \<in> set (primitives (conditionalDispose a d))" and x: "x \<in> set (allRefs pr)"
  then have p: "(p, pr) \<in> set (primitives d)" by (simp add: conditionalDispose_primitives [OF assms])
  then have r: "getAccessor d x \<noteq> None" using wf_refs [OF assms] x by blast
  have "\<not> (x = a \<and> length (listParents d a) = 1)"
    using listParents_one [OF assms, of a] p x by auto
  then show "getAccessor (conditionalDispose a d) x \<noteq> None"
    using r by (simp add: conditionalDispose_getAccessor)
qed

lemma writeAttribute_alt:
  "writeAttribute prim remap unique src d =
     conditionalDispose (fst src)
       (install prim (\<lambda>pr. swapTargets (fst src) (nextId d) (swapPrimitive (fst src) (nextId d) pr)) (snd src)
          (remapArray (getElementSize (elementType (snd src))) remap unique (array (snd src))) d)"
  by (simp add: writeAttribute_def shallowCloneAccessor_def createAccessor_def remapAttribute_def
      deepSwapAttribute_def conditionalDispose_def install_def Let_def)

lemma writeIndices_alt:
  "writeIndices prim src n arr d =
     conditionalDispose (fst src)
       (install prim (\<lambda>pr. pr\<lparr>indices := Some (nextId d)\<rparr>) (snd src)
          (if n \<le> 65534 then Uint16Array (new_Uint16Array arr) else Uint32Array arr) d)"
  by (simp add: writeIndices_def shallowCloneAccessor_def createAccessor_def setIndices_def
      conditionalDispose_def install_def Let_def)

lemma map_of_map_upd:
  "map_of (map (\<lambda>(k, v). if k = a then (k, f v) else (k, v)) xs) x =
     (if x = a then map_option f (map_of xs a) else map_of xs x)"
  by (induction xs) auto

lemma install_fields:
  "meshes (install prim f acc arr d) = meshes d"
  "nextId (install prim f acc arr d) = Suc (nextId d)"
  "logger (install prim f acc arr d) = logger d"
  "map fst (primitives (install prim f acc arr d)) = map fst (primitives d)"
  by (auto simp: install_def updatePrimitive_def setArray_def createAccessor_def)

lemma install_getPrimitive:
  "getPrimitive (install prim f acc arr d) q =
     (if q = prim then map_option f (getPrimitive d prim) else getPrimitive d q)"
  by (simp add: install_def updatePrimitive_def setArray_def createAccessor_def getPrimitive_def map_of_map_upd)

lemma install_getAccessor:
  assumes "wf_document d"
  shows "getAccessor (install prim f acc arr d) x =
     (if x = nextId d then Some (acc\<lparr>array := arr\<rparr>) else getAccessor d x)"
proof -
  have n: "map_of (accessors d) (nextId d) = None"
    using getAccessor_nextId [OF assms] by (simp add: getAccessor_def)
  show ?thesis
    using n
    by (auto simp: install_def updatePrimitive_def setArray_def createAccessor_def getAccessor_def
        map_of_map_upd map_add_def split: option.splits)
qed

lemma install_primitives_set:
  "(p, pr) \<in> set (primitives (install prim f acc arr d)) \<Longrightarrow>
     \<exists>pr0. (p, pr0) \<in> set (primitives d) \<and> (pr = pr0 \<or> pr = f pr0)"
  by (auto simp: install_def updatePrimitive_def setArray_def createAccessor_def split: if_splits)

lemma install_wf:
  assumes wf: "wf_document d" and f: "\<And>pr. set (allRefs (f pr)) \<subseteq> insert (nextId d) (set (allRefs pr))"
  shows "wf_document (install prim f acc arr d)"
proof (rule wf_documentI)
  fix k a assume "(k, a) \<in> set (accessors (install prim f acc arr d))"
  then have "k = nextId d \<or> (\<exists>a0. (k, a0) \<in> set (accessors d))"
    by (auto simp: install_def updatePrimitive_def setArray_def createAccessor_def split: if_splits)
  then show "k < nextId (install prim f acc arr d)"
    using wf_keys [OF wf] by (auto simp: install_fields less_Suc_eq)
next
  fix p pr a
  assume "(p, pr) \<in> set (primitives (install prim f acc arr d))" and a: "a \<in> set (allRefs pr)"
  then obtain pr0 where p0: "(p, pr0) \<in> set (primitives d)" and "pr = pr0 \<or> pr = f pr0"
    using install_primitives_set by blast
  then have "a = nextId d \<or> a \<in> set (allRefs pr0)" using a f by blast
  then show "getAccessor (install prim f acc arr d) a \<noteq> None"
    using wf_refs [OF wf p0] by (auto simp: install_getAccessor [OF wf])
qed

lemma allRefs_swap:
  "set (allRefs (swapTargets a n (swapPrimitive a n pr))) \<subseteq> insert n (set (allRefs pr))"
  by (fastforce simp: allRefs_def primitiveRefs_def swapTargets_def swapPrimitive_def swapAttributes_def
      swapRef_def split: option.splits if_splits)

lemma allRefs_setIndices:
  "set (allRefs (pr\<lparr>indices := Some n\<rparr>)) \<subseteq> insert n (set (allRefs pr))"
  by (auto simp: allRefs_def primitiveRefs_def split: option.splits)

lemma replaceStep_fields:
  "meshes (replaceStep a prim f acc arr d) = meshes d"
  "nextId (replaceStep a prim f acc arr d) = Suc (nextId d)"
  "logger (replaceStep a prim f acc arr d) = logger d"
  by (simp_all add: replaceStep_def conditionalDispose_fields install_fields)

lemma replaceStep_wf:
  assumes "wf_document d" and "\<And>pr. set (allRefs (f pr)) \<subseteq> insert (nextId d) (set (allRefs pr))"
  shows "wf_document (replaceStep a prim f acc arr d)"
  unfolding replaceStep_def by (rule conditionalDispose_wf) (rule install_wf [OF assms])

lemma replaceStep_getPrimitive:
  assumes "wf_document d" and "\<And>pr. set (allRefs (f pr)) \<subseteq> insert (nextId d) (set (allRefs pr))"
  shows "getPrimitive (replaceStep a prim f acc arr d) q =
     (if q = prim then map_option f (getPrimitive d prim) else getPrimitive d q)"
  unfolding replaceStep_def getPrimitive_def
  using conditionalDispose_primitives [OF install_wf [OF assms]] install_getPrimitive
  by (simp add: getPrimitive_def)

lemma replaceStep_primitive_keys:
  assumes "wf_document d" and "\<And>pr. set (allRefs (f pr)) \<subseteq> insert (nextId d) (set (allRefs pr))"
  shows "map fst (primitives (replaceStep a prim f acc arr d)) = map fst (primitives d)"
  unfolding replaceStep_def
  using conditionalDispose_primitives [OF install_wf [OF assms]] install_fields(4) by simp

lemma replaceStep_new:
  assumes "wf_document d" and "\<And>pr. set (allRefs (f pr)) \<subseteq> insert (nextId d) (set (allRefs pr))"
    and "a \<noteq> nextId d"
  shows "getAccessor (replaceStep a prim f acc arr d) (nextId d) = Some (acc\<lparr>array := arr\<rparr>)"
  unfolding replaceStep_def using assms(3)
  by (simp add: conditionalDispose_getAccessor install_getAccessor [OF assms(1)])

lemma replaceStep_frame:
  assumes wf: "wf_document d" and f: "\<And>pr. set (allRefs (f pr)) \<subseteq> insert (nextId d) (set (allRefs pr))"
    and q: "q \<noteq> prim" "getPrimitive d q = Some pq" "x \<in> set (allRefs pq)"
    and x: "getAccessor d x = Some accx"
  shows "getAccessor (replaceStep a prim f acc arr d) x = Some accx"
proof -
  let ?d3 = "install prim f acc arr d"
  have wf3: "wf_document ?d3" by (rule install_wf [OF wf f])
  have "getPrimitive ?d3 q = Some pq" using q by (simp add: install_getPrimitive)
  then have "(q, pq) \<in> set (primitives ?d3)" unfolding getPrimitive_def by (rule map_of_SomeD)
  then have "\<not> length (listParents ?d3 x) = 1"
    using listParents_one [OF wf3, of x] q(3) by auto
  moreover have "x \<noteq> nextId d" using getAccessor_lt [OF wf x] by simp
  ultimately show ?thesis
    using x by (auto simp: replaceStep_def conditionalDispose_getAccessor install_getAccessor [OF wf])
qed

lemma simplifyTriangles_unfold:
  "simplifyTriangles e options prim position srcIndices s =
     (case r_simplifier options of
        None \<Rightarrow> (Inl (TypeError ''simplifier is undefined''), s)
      | Some simp \<Rightarrow>
         (case simplifyResult e simp options position srcIndices of
            Inl msg \<Rightarrow> (Inl (External msg), logCall (simplifyCall e options position srcIndices) s)
          | Inr (dst, err) \<Rightarrow>
             (case ext_compactMesh simp dst of
                Inl msg \<Rightarrow> (Inl (External msg),
                   logCall (Call_compactMesh dst) (logCall (simplifyCall e options position srcIndices) s))
              | Inr (c, remap, u) \<Rightarrow>
                  (Inr (),
                   (logCall (Call_compactMesh dst) (logCall (simplifyCall e options position srcIndices) s))
                     \<lparr>doc := writeIndices prim srcIndices (getCount (snd position)) c
                        (writeAttributes prim remap u
                          (debug (Debug_vertices (getCount (snd position)) u (Some err)) (doc s)))\<rparr>))))"
  by (simp add: simplifyTriangles_def simplifyResult_def simplifyCall_def positionArrayOf_def
      triangleFlags_def Let_def call_simplify_def call_compactMesh_def bindE_def external_def onDoc_def
      logCall_def split: option.splits sum.splits prod.splits)

lemma simplifyPrimitive_unfold:
  "simplifyPrimitive e opts prim s =
     (if getMode (doc s) prim = Some POINTS then priv_simplifyPoints e (withDefaults opts) prim s
      else case getIndices (doc s) prim of
             None \<Rightarrow> (Inl (TypeError ''srcIndices is null''), s)
           | Some srcIndices \<Rightarrow>
               (case getAttribute (doc s) prim ''POSITION'' of
                  None \<Rightarrow> (Inl (TypeError ''position is null''), s)
                | Some position \<Rightarrow> simplifyTriangles e (withDefaults opts) prim position srcIndices s))"
  by (simp add: simplifyPrimitive_def Let_def)

lemma frames_refl: "wf_document d \<Longrightarrow> frames prim d d"
  by (simp add: frames_def)

lemma frames_trans: "frames prim d d' \<Longrightarrow> frames prim d' d'' \<Longrightarrow> frames prim d d''"
  unfolding frames_def by (intro conjI; simp)

lemma frames_wf: "frames prim d d' \<Longrightarrow> wf_document d'"
  by (simp add: frames_def)

lemma frames_replaceStep:
  assumes "wf_document d" and "\<And>pr. set (allRefs (f pr)) \<subseteq> insert (nextId d) (set (allRefs pr))"
  shows "frames prim d (replaceStep a prim f acc arr d)"
  unfolding frames_def
  using replaceStep_wf [OF assms] replaceStep_getPrimitive [OF assms] replaceStep_primitive_keys [OF assms]
    replaceStep_frame [OF assms]
  by (auto simp: replaceStep_fields)

lemma frames_writeAttribute: "wf_document d \<Longrightarrow> frames prim d (writeAttribute prim remap unique src d)"
  unfolding writeAttribute_alt replaceStep_def [symmetric]
  by (rule frames_replaceStep) (simp_all add: allRefs_swap)

lemma frames_writeIndices: "wf_document d \<Longrightarrow> frames prim d (writeIndices prim src n arr d)"
  unfolding writeIndices_alt replaceStep_def [symmetric]
  by (rule frames_replaceStep) (simp_all add: allRefs_setIndices)

lemma frames_fold_writeAttribute:
  "wf_document d \<Longrightarrow> frames prim d (fold (writeAttribute prim remap unique) srcs d)"
proof (induction srcs arbitrary: d)
  case Nil
  then show ?case by (simp add: frames_refl)
next
  case (Cons src srcs)
  have 1: "frames prim d (writeAttribute prim remap unique src d)"
    by (rule frames_writeAttribute [OF Cons.prems])
  have 2: "frames prim (writeAttribute prim remap unique src d)
             (fold (writeAttribute prim remap unique) srcs (writeAttribute prim remap unique src d))"
    by (rule Cons.IH [OF frames_wf [OF 1]])
  show ?case using frames_trans [OF 1 2] by simp
qed

lemma frames_writeAttributes: "wf_document d \<Longrightarrow> frames prim d (writeAttributes prim remap unique d)"
  unfolding writeAttributes_def by (rule frames_fold_writeAttribute)

lemma wf_debug: "wf_document (debug x d) = wf_document d"
  by (simp add: wf_document_def debug_def getAccessor_def)


lemma frames_debug: "wf_document d \<Longrightarrow> frames prim d (debug x d)"
  by (simp add: frames_def wf_debug) (simp add: debug_def getPrimitive_def getAccessor_def)

lemma getPrimitive_keys: "getPrimitive d p \<noteq> None \<longleftrightarrow> p \<in> set (map fst (primitives d))"
  by (simp add: getPrimitive_def map_of_eq_None_iff)

lemma frames_prim_exists:
  assumes "frames prim d d'" and "getPrimitive d p \<noteq> None"
  shows "getPrimitive d' p \<noteq> None"
proof -
  have "map fst (primitives d') = map fst (primitives d)" using assms(1) by (simp add: frames_def)
  then show ?thesis using assms(2) getPrimitive_keys by metis
qed

lemma writeIndices_getIndices:
  assumes wf: "wf_document d" and p: "getPrimitive d prim \<noteq> None" and a: "fst src < nextId d"
  shows "getIndices (writeIndices prim src n arr d) prim =
           Some (nextId d, (snd src)\<lparr>array := (if n \<le> 65534 then Uint16Array (new_Uint16Array arr)
                                               else Uint32Array arr)\<rparr>)"
proof -
  let ?f = "\<lambda>pr. pr\<lparr>indices := Some (nextId d)\<rparr>"
  have f: "\<And>pr. set (allRefs (?f pr)) \<subseteq> insert (nextId d) (set (allRefs pr))"
    by (rule allRefs_setIndices)
  obtain pr where pr: "getPrimitive d prim = Some pr" using p by auto
  have 1: "getPrimitive (writeIndices prim src n arr d) prim = Some (?f pr)"
    unfolding writeIndices_alt replaceStep_def [symmetric]
    using replaceStep_getPrimitive [OF wf f] pr by simp
  have 2: "getAccessor (writeIndices prim src n arr d) (nextId d) =
             Some ((snd src)\<lparr>array := (if n \<le> 65534 then Uint16Array (new_Uint16Array arr) else Uint32Array arr)\<rparr>)"
    unfolding writeIndices_alt replaceStep_def [symmetric]
    using replaceStep_new [OF wf f, of "fst src"] a by simp
  show ?thesis
    unfolding getIndices_def resolve_def using 1 2 by simp
qed

lemma getIndices_resolved: "getIndices d p = Some ix \<Longrightarrow> getAccessor d (fst ix) = Some (snd ix)"
  by (auto simp: getIndices_def resolve_def split: option.splits)

lemma getIndices_prim: "getIndices d p = Some ix \<Longrightarrow> getPrimitive d p \<noteq> None"
  by (auto simp: getIndices_def split: option.splits)

lemma simplifyPrimitive_triangles_success:
  assumes m: "getMode (doc s) prim \<noteq> Some POINTS"
    and run: "simplifyPrimitive e opts prim s = (Inr (), s')"
  shows "\<exists>ix pos simp dst err c remap u.
           getIndices (doc s) prim = Some ix \<and> getAttribute (doc s) prim ''POSITION'' = Some pos \<and>
           simplifier opts = Some simp \<and>
           simplifyResult e simp (withDefaults opts) pos ix = Inr (dst, err) \<and>
           ext_compactMesh simp dst = Inr (c, remap, u) \<and>
           s' = s\<lparr>calls := calls s @ [simplifyCall e (withDefaults opts) pos ix, Call_compactMesh dst],
                  doc := writeIndices prim ix (getCount (snd pos)) c
                           (writeAttributes prim remap u
                              (debug (Debug_vertices (getCount (snd pos)) u (Some err)) (doc s)))\<rparr>"
  using run m
  by (auto simp: simplifyPrimitive_unfold simplifyTriangles_unfold withDefaults_def logCall_def
      split: option.splits sum.splits prod.splits if_splits)

lemma simplifyPrimitive_triangles_failure:
  assumes m: "getMode (doc s) prim \<noteq> Some POINTS"
    and run: "simplifyPrimitive e opts prim s = (Inl err, s')"
  shows "doc s' = doc s \<and> useExperimentalFeatures s' = useExperimentalFeatures s"
  using run m
  by (auto simp: simplifyPrimitive_unfold simplifyTriangles_unfold withDefaults_def logCall_def
      split: option.splits sum.splits prod.splits if_splits)

lemma triangles_frames:
  assumes wf: "wf_document d"
  shows "frames prim d (writeIndices prim ix n c (writeAttributes prim remap u (debug x d)))"
proof -
  have 1: "frames prim d (debug x d)" by (rule frames_debug [OF wf])
  have 2: "frames prim (debug x d) (writeAttributes prim remap u (debug x d))"
    by (rule frames_writeAttributes [OF frames_wf [OF 1]])
  have 3: "frames prim (writeAttributes prim remap u (debug x d))
             (writeIndices prim ix n c (writeAttributes prim remap u (debug x d)))"
    by (rule frames_writeIndices [OF frames_wf [OF 2]])
  show ?thesis by (rule frames_trans [OF frames_trans [OF 1 2] 3])
qed

lemma triangles_getIndices:
  assumes wf: "wf_document d" and ix: "getIndices d prim = Some ix"
  shows "getIndices (writeIndices prim ix n c (writeAttributes prim remap u (debug x d))) prim =
           Some (nextId (writeAttributes prim remap u (debug x d)),
                 (snd ix)\<lparr>array := (if n \<le> 65534 then Uint16Array (new_Uint16Array c) else Uint32Array c)\<rparr>)"
proof -
  let ?d = "writeAttributes prim remap u (debug x d)"
  have 1: "frames prim d ?d"
    by (rule frames_trans [OF frames_debug [OF wf] frames_writeAttributes]) (simp add: wf_debug wf)
  have "fst ix < nextId d" using getAccessor_lt [OF wf getIndices_resolved [OF ix]] .
  then have a: "fst ix < nextId ?d" using 1 by (simp add: frames_def)
  have p: "getPrimitive ?d prim \<noteq> None" by (rule frames_prim_exists [OF 1 getIndices_prim [OF ix]])
  show ?thesis by (rule writeIndices_getIndices [OF frames_wf [OF 1] p a])
qed



lemma run_eq: "fst x = a \<Longrightarrow> x = (a, snd x)"
  by (cases x) simp


lemma wf_doc_quad: "wf_document doc_quad"
  by (simp add: wf_document_def doc_quad_def allRefs_def primitiveRefs_def getAccessor_def)

lemma simplifyPrimitive_triangles_run:
  assumes "getMode (doc s) prim \<noteq> Some POINTS"
    and "getIndices (doc s) prim = Some ix"
    and "getAttribute (doc s) prim ''POSITION'' = Some pos"
    and "simplifier opts = Some simp"
    and "simplifyResult e simp (withDefaults opts) pos ix = Inr (dst, err)"
    and "ext_compactMesh simp dst = Inr (c, remap, u)"
  shows "simplifyPrimitive e opts prim s =
           (Inr (), s\<lparr>calls := calls s @ [simplifyCall e (withDefaults opts) pos ix, Call_compactMesh dst],
                  doc := writeIndices prim ix (getCount (snd pos)) c
                           (writeAttributes prim remap u
                              (debug (Debug_vertices (getCount (snd pos)) u (Some err)) (doc s)))\<rparr>)"
  using assms
  by (simp add: simplifyPrimitive_unfold simplifyTriangles_unfold withDefaults_def logCall_def)

lemma priv_simplifyPoints_unfold:
  "priv_simplifyPoints e options prim s =
     (case getAttribute (doc (unwelded e prim s)) prim ''POSITION'' of
        None \<Rightarrow> (Inl (TypeError ''position is null''), unwelded e prim s)
      | Some position \<Rightarrow>
         (case r_simplifier options of
            None \<Rightarrow> (Inl (TypeError ''simplifier is undefined''), unwelded e prim s)
          | Some simp \<Rightarrow>
             (case ext_simplifyPoints simp of
                None \<Rightarrow> (Inl (TypeError ''simplifier.simplifyPoints is not a function''),
                           (unwelded e prim s)\<lparr>useExperimentalFeatures := True\<rparr>)
              | Some f \<Rightarrow>
                 (case f True (positionArrayOf e position) 3 (pointsTarget options position)
                         (colorArrayOf e position (getAttribute (doc (unwelded e prim s)) prim ''COLOR_0''))
                         (colorStrideOf (getAttribute (doc (unwelded e prim s)) prim ''COLOR_0'')) of
                    Inl msg \<Rightarrow>
                      (Inl (External msg),
                       (unwelded e prim s)
                         \<lparr>useExperimentalFeatures := True,
                          calls := calls s @ [pointsCall e options position
                                      (getAttribute (doc (unwelded e prim s)) prim ''COLOR_0'')]\<rparr>)
                  | Inr dst \<Rightarrow>
                     (case ext_compactMesh simp dst of
                        Inl msg \<Rightarrow>
                          (Inl (External msg),
                           (unwelded e prim s)
                             \<lparr>useExperimentalFeatures := False,
                              calls := calls s @ [pointsCall e options position
                                          (getAttribute (doc (unwelded e prim s)) prim ''COLOR_0''),
                                        Call_compactMesh dst]\<rparr>)
                      | Inr (c, remap, u) \<Rightarrow>
                          (Inr (),
                           (unwelded e prim s)
                             \<lparr>useExperimentalFeatures := False,
                              calls := calls s @ [pointsCall e options position
                                          (getAttribute (doc (unwelded e prim s)) prim ''COLOR_0''),
                                        Call_compactMesh dst],
                              doc := writeAttributes prim remap u
                                       (debug (Debug_vertices (getCount (snd position)) u None)
                                          (doc (unwelded e prim s)))\<rparr>))))))"
  by (simp add: priv_simplifyPoints_def unwelded_def pointsCall_def positionArrayOf_def pointsTarget_def
      colorArrayOf_def colorStrideOf_def Let_def call_simplifyPoints_def call_compactMesh_def bindE_def
      external_def onDoc_def logCall_def split: option.splits sum.splits prod.splits)

lemmas getter_defs =
  getMode_def getPrimitive_def getIndices_def getAttribute_def resolve_def getAccessor_def getMesh_def
  getCount_def getComponentType_def getComponentSize_def getName_def listPrimitives_def listMeshes_def

lemma narrowed_values:
  assumes "\<forall>i \<in> set c. unat i < n"
  shows "array_values (narrowed n c) = map (\<lambda>i. of_nat (unat i)) c"
proof (cases "n \<le> 65534")
  case True
  have eq: "\<And>i. i \<in> set c \<Longrightarrow> unat (ucast i :: 16 word) = unat i"
  proof -
    fix i assume "i \<in> set c"
    then have "unat i < 65536" using assms True by fastforce
    then show "unat (ucast i :: 16 word) = unat i"
      by (simp add: unsigned_ucast_eq take_bit_nat_eq_self)
  qed
  have "array_values (Uint16Array (map ucast c)) =
          map (\<lambda>w :: 16 word. (of_nat (unat w) :: number)) (map ucast c)"
    by (simp only: array_values.simps)
  also have "\<dots> = map (\<lambda>i :: 32 word. (of_nat (unat (ucast i :: 16 word)) :: number)) c"
    by (simp only: map_map comp_def)
  also have "\<dots> = map (\<lambda>i :: 32 word. (of_nat (unat i) :: number)) c"
    by (rule map_cong [OF refl]) (simp only: eq)
  finally show ?thesis using True by (simp only: narrowed_def new_Uint16Array_def if_True)
next
  case False
  then show ?thesis by (simp add: narrowed_def)
qed

lemma narrowed_type:
  "arrayComponentType (narrowed n c) = (if n \<le> 65534 then UNSIGNED_SHORT else UNSIGNED_INT)"
  by (simp add: narrowed_def)

lemma triangles_result_indices:
  assumes wf: "wf_document (doc s)"
    and "getMode (doc s) prim \<noteq> Some POINTS"
    and ix: "getIndices (doc s) prim = Some ix"
    and "getAttribute (doc s) prim ''POSITION'' = Some pos"
    and "simplifier opts = Some simp"
    and "simplifyResult e simp (withDefaults opts) pos ix = Inr (dst, err)"
    and "ext_compactMesh simp dst = Inr (c, remap, u)"
  shows "fst (simplifyPrimitive e opts prim s) = Inr () \<and>
         (\<exists>k. getIndices (doc (snd (simplifyPrimitive e opts prim s))) prim =
                Some (k, (snd ix)\<lparr>array := narrowed (getCount (snd pos)) c\<rparr>))"
  unfolding simplifyPrimitive_triangles_run [OF assms(2-7)] narrowed_def
  using triangles_getIndices [OF wf ix] by simp

lemma length_big_positions: "length big_positions = 196605"
  by (simp only: big_positions_def length_replicate)

lemma wf_doc_big: "wf_document doc_big"
  by (simp add: wf_document_def doc_big_def allRefs_def primitiveRefs_def getAccessor_def)

lemma big_mode: "getMode (doc (state_of doc_big)) 0 \<noteq> Some POINTS"
  by (simp add: getter_defs state_of_def doc_big_def)

lemma big_ix: "getIndices (doc (state_of doc_big)) 0 =
   Some (1, \<lparr>array = Uint32Array [0, 1, 2], elementType = SCALAR, normalized = False\<rparr>)"
  by (simp add: getter_defs state_of_def doc_big_def)

lemma big_pos: "getAttribute (doc (state_of doc_big)) 0 ''POSITION'' =
   Some (0, \<lparr>array = Float32Array big_positions, elementType = VEC3, normalized = False\<rparr>)"
  by (simp add: getter_defs state_of_def doc_big_def)

lemma big_count: "getCount \<lparr>array = Float32Array big_positions, elementType = VEC3, normalized = False\<rparr> = 65535"
  by (simp add: getCount_def length_big_positions)

lemma big_res: "simplifyResult env_ex simplifier_ex (withDefaults (options_ex simplifier_ex 1))
    (0, \<lparr>array = Float32Array big_positions, elementType = VEC3, normalized = False\<rparr>)
    (1, \<lparr>array = Uint32Array [0, 1, 2], elementType = SCALAR, normalized = False\<rparr>)
    = Inr ([0, 1, 2], 0)"
  by (simp add: simplifyResult_def simplifier_ex_def withDefaults_def options_ex_def targetIndexCount_def
      getCount_def)

lemma ex_cm: "ext_compactMesh simplifier_ex [0, 1, 2] = Inr ([0, 1, 2], [0, 1, 2], 3)"
  by (simp add: simplifier_ex_def compact_remap_def upt_conv_Cons)

lemma quad_mode: "getMode (doc (state_of doc_quad)) 0 = Some TRIANGLES"
  by (simp add: getter_defs state_of_def doc_quad_def)

lemma quad_ix: "getIndices (doc (state_of doc_quad)) 0 =
   Some (1, \<lparr>array = Uint16Array [0, 1, 2, 0, 2, 3], elementType = SCALAR, normalized = False\<rparr>)"
  by (simp add: getter_defs state_of_def doc_quad_def)

lemma quad_pos: "getAttribute (doc (state_of doc_quad)) 0 ''POSITION'' =
   Some (0, \<lparr>array = Float32Array [0, 0, 0, 1, 0, 0, 1, 1, 0, 0, 1, 0], elementType = VEC3,
                         normalized = False\<rparr>)"
  by (simp add: getter_defs state_of_def doc_quad_def)

lemma quad_res: "simplifyResult env_ex simplifier_ex (withDefaults (options_ex simplifier_ex (1 / 2)))
    (0, \<lparr>array = Float32Array [0, 0, 0, 1, 0, 0, 1, 1, 0, 0, 1, 0], elementType = VEC3,
                         normalized = False\<rparr>)
    (1, \<lparr>array = Uint16Array [0, 1, 2, 0, 2, 3], elementType = SCALAR, normalized = False\<rparr>)
    = Inr ([0, 1, 2], 0)"
  by (simp add: simplifyResult_def simplifier_ex_def withDefaults_def options_ex_def targetIndexCount_def
      getCount_def)

lemma wf_state_quad: "wf_document (doc (state_of doc_quad))"
  using wf_doc_quad by (simp add: state_of_def)

lemma quad_simplifier: "simplifier (options_ex simplifier_ex r) = Some simplifier_ex"
  by (simp add: options_ex_def)

lemma quad_run_ok:
  "simplifyPrimitive env_ex (options_ex simplifier_ex (1 / 2)) 0 (state_of doc_quad) =
     (Inr (), snd (simplifyPrimitive env_ex (options_ex simplifier_ex (1 / 2)) 0 (state_of doc_quad)))"
proof -
  have m: "getMode (doc (state_of doc_quad)) 0 \<noteq> Some POINTS" using quad_mode by simp
  show ?thesis
    by (rule run_eq)
      (simp add: simplifyPrimitive_triangles_run [OF m quad_ix quad_pos quad_simplifier quad_res ex_cm])
qed

lemma allRefs_attrRefs: "set (allRefs pr) = (case indices pr of None \<Rightarrow> {} | Some a \<Rightarrow> {a}) \<union> set (attrRefs pr)"
  by (auto simp: allRefs_def attrRefs_def primitiveRefs_def split: option.splits)

lemma attrRefs_swap:
  "attrRefs (swapTargets a n (swapPrimitive a n pr)) = map (swapRef a n) (attrRefs pr)"
  by (simp add: attrRefs_def swapTargets_def swapPrimitive_def swapAttributes_def map_concat comp_def
      case_prod_unfold)

lemma set_uniq: "set (uniq xs) = set xs"
  by (induction xs) auto

lemma set_map_filter_resolve:
  "set (List.map_filter (resolve d) xs) = {(y, acc). y \<in> set xs \<and> getAccessor d y = Some acc}"
  by (induction xs) (auto simp: map_filter_simps resolve_def split: option.splits)

lemma deepListAttributes_keys:
  assumes wf: "wf_document d" and p: "getPrimitive d prim = Some pr"
  shows "fst ` set (deepListAttributes d prim) = set (attrRefs pr)"
proof -
  have "(prim, pr) \<in> set (primitives d)" using p unfolding getPrimitive_def by (rule map_of_SomeD)
  then have r: "\<And>y. y \<in> set (attrRefs pr) \<Longrightarrow> getAccessor d y \<noteq> None"
    using wf_refs [OF wf] allRefs_attrRefs by blast
  have "set (deepListAttributes d prim) = {(y, acc). y \<in> set (attrRefs pr) \<and> getAccessor d y = Some acc}"
    using p by (simp add: deepListAttributes_def set_map_filter_resolve set_uniq attrRefs_def)
  then show ?thesis using r by force
qed

lemma writeAttribute_getPrimitive:
  assumes "wf_document d"
  shows "getPrimitive (writeAttribute prim remap u src d) q =
     (if q = prim
      then map_option (\<lambda>pr. swapTargets (fst src) (nextId d) (swapPrimitive (fst src) (nextId d) pr))
             (getPrimitive d prim)
      else getPrimitive d q)"
  unfolding writeAttribute_alt replaceStep_def [symmetric]
  by (rule replaceStep_getPrimitive [OF assms]) (rule allRefs_swap)

lemma writeAttribute_nextId: "nextId (writeAttribute prim remap u src d) = Suc (nextId d)"
  unfolding writeAttribute_alt replaceStep_def [symmetric] by (simp add: replaceStep_fields)

lemma fold_writeAttribute_fresh:
  assumes "wf_document d" and "getPrimitive d prim = Some pr"
    and "\<forall>y \<in> set (attrRefs pr). n0 \<le> y \<or> y \<in> fst ` set srcs" and "n0 \<le> nextId d"
  shows "\<exists>pr'. getPrimitive (fold (writeAttribute prim remap u) srcs d) prim = Some pr' \<and>
               (\<forall>y \<in> set (attrRefs pr'). n0 \<le> y)"
  using assms
proof (induction srcs arbitrary: d pr)
  case Nil
  then show ?case by simp
next
  case (Cons src srcs)
  let ?d1 = "writeAttribute prim remap u src d"
  let ?pr1 = "swapTargets (fst src) (nextId d) (swapPrimitive (fst src) (nextId d) pr)"
  have wf1: "wf_document ?d1" by (rule frames_wf [OF frames_writeAttribute [OF Cons.prems(1)]])
  have p1: "getPrimitive ?d1 prim = Some ?pr1"
    using Cons.prems(2) by (simp add: writeAttribute_getPrimitive [OF Cons.prems(1)])
  have r1: "\<forall>y \<in> set (attrRefs ?pr1). n0 \<le> y \<or> y \<in> fst ` set srcs"
    using Cons.prems(3,4) by (auto simp: attrRefs_swap swapRef_def)
  have n1: "n0 \<le> nextId ?d1" using Cons.prems(4) by (simp add: writeAttribute_nextId)
  show ?case using Cons.IH [OF wf1 p1 r1 n1] by simp
qed

lemma writeAttributes_fresh:
  assumes wf: "wf_document d" and p: "getPrimitive d prim = Some pr"
  shows "\<exists>pr'. getPrimitive (writeAttributes prim remap u d) prim = Some pr' \<and>
               (\<forall>y \<in> set (attrRefs pr'). nextId d \<le> y)"
  unfolding writeAttributes_def
  by (rule fold_writeAttribute_fresh [OF wf p]) (simp_all add: deepListAttributes_keys [OF wf p])

lemma writeIndices_getPrimitive:
  assumes "wf_document d"
  shows "getPrimitive (writeIndices prim src n arr d) q =
     (if q = prim then map_option (\<lambda>pr. pr\<lparr>indices := Some (nextId d)\<rparr>) (getPrimitive d prim)
      else getPrimitive d q)"
  unfolding writeIndices_alt replaceStep_def [symmetric]
  by (rule replaceStep_getPrimitive [OF assms]) (rule allRefs_setIndices)

lemma triangles_fresh:
  assumes wf: "wf_document d" and p: "getPrimitive d prim = Some pr"
  shows "\<exists>pr'. getPrimitive (writeIndices prim ix n c (writeAttributes prim remap u (debug x d))) prim = Some pr' \<and>
               (\<forall>y \<in> set (allRefs pr'). nextId d \<le> y)"
proof -
  let ?d0 = "debug x d"
  let ?d1 = "writeAttributes prim remap u ?d0"
  have wf0: "wf_document ?d0" using wf by (simp add: wf_debug)
  have p0: "getPrimitive ?d0 prim = Some pr" using p by (simp add: debug_def getPrimitive_def)
  have n0: "nextId ?d0 = nextId d" by (simp add: debug_def)
  from writeAttributes_fresh [OF wf0 p0, of remap u] obtain pr1 where
    p1: "getPrimitive ?d1 prim = Some pr1" and f1: "\<forall>y \<in> set (attrRefs pr1). nextId d \<le> y"
    unfolding n0 by blast
  have fr: "frames prim ?d0 ?d1" by (rule frames_writeAttributes [OF wf0])
  then have n1: "nextId d \<le> nextId ?d1" unfolding frames_def n0 by simp
  have "getPrimitive (writeIndices prim ix n c ?d1) prim = Some (pr1\<lparr>indices := Some (nextId ?d1)\<rparr>)"
    using p1 by (simp add: writeIndices_getPrimitive [OF frames_wf [OF fr]])
  moreover have "\<forall>y \<in> set (allRefs (pr1\<lparr>indices := Some (nextId ?d1)\<rparr>)). nextId d \<le> y"
    using f1 n1 by (auto simp: allRefs_attrRefs attrRefs_def)
  ultimately show ?thesis by blast
qed

lemma triangles_run_frames:
  assumes wf: "wf_document (doc s)"
    and m: "getMode (doc s) A \<noteq> Some POINTS"
    and run: "simplifyPrimitive e opts A s = (r, s')"
  shows "frames A (doc s) (doc s')"
proof (cases r)
  case (Inl err)
  then have "doc s' = doc s" using simplifyPrimitive_triangles_failure [OF m] run by blast
  then show ?thesis using frames_refl [OF wf] by simp
next
  case (Inr u)
  then have "simplifyPrimitive e opts A s = (Inr (), s')" using run by simp
  from simplifyPrimitive_triangles_success [OF m this]
  show ?thesis using triangles_frames [OF wf] by auto
qed

lemma wf_doc_shared: "wf_document (doc (state_of doc_shared))"
  by (simp add: wf_document_def doc_shared_def state_of_def allRefs_def primitiveRefs_def getAccessor_def)

lemma shared_mode: "getMode (doc (state_of doc_shared)) 0 = Some TRIANGLES"
  by (simp add: getter_defs state_of_def doc_shared_def)

lemma shared_ix: "getIndices (doc (state_of doc_shared)) 0 =
   Some (1, \<lparr>array = Uint16Array [0, 1, 2, 0, 2, 3], elementType = SCALAR, normalized = False\<rparr>)"
  by (simp add: getter_defs state_of_def doc_shared_def)

lemma shared_pos: "getAttribute (doc (state_of doc_shared)) 0 ''POSITION'' =
   Some (0, \<lparr>array = Float32Array [0, 0, 0, 1, 0, 0, 1, 1, 0, 0, 1, 0], elementType = VEC3,
                         normalized = False\<rparr>)"
  by (simp add: getter_defs state_of_def doc_shared_def)

lemma shared_B: "getPrimitive (doc (state_of doc_shared)) 1 =
   Some \<lparr>mode = TRIANGLES, indices = Some 2, attributes = [(''POSITION'', 0)], targets = []\<rparr>"
  by (simp add: getter_defs state_of_def doc_shared_def)

lemma shared_x: "getAccessor (doc (state_of doc_shared)) 0 =
   Some \<lparr>array = Float32Array [0, 0, 0, 1, 0, 0, 1, 1, 0, 0, 1, 0], elementType = VEC3, normalized = False\<rparr>"
  by (simp add: getter_defs state_of_def doc_shared_def)

lemma shared_run_ok:
  "simplifyPrimitive env_ex (options_ex simplifier_ex (1 / 2)) 0 (state_of doc_shared) =
     (Inr (), snd (simplifyPrimitive env_ex (options_ex simplifier_ex (1 / 2)) 0 (state_of doc_shared)))"
proof -
  have m: "getMode (doc (state_of doc_shared)) 0 \<noteq> Some POINTS" using shared_mode by simp
  show ?thesis
    by (rule run_eq)
      (simp add: simplifyPrimitive_triangles_run [OF m shared_ix shared_pos quad_simplifier quad_res ex_cm])
qed



lemma points_mode: "getMode (doc (state_of doc_points)) 0 = Some POINTS"
  by (simp add: getter_defs state_of_def doc_points_def)

lemma points_ix: "getIndices (doc (state_of doc_points)) 0 = None"
  by (simp add: getter_defs state_of_def doc_points_def)

lemma points_unwelded: "unwelded e 0 (state_of doc_points) = state_of doc_points"
  by (simp add: unwelded_def points_ix)

lemma points_pos: "getAttribute (doc (state_of doc_points)) 0 ''POSITION'' =
  Some (0, \<lparr>array = Float32Array [0, 0, 0, 1, 0, 0], elementType = VEC3, normalized = False\<rparr>)"
  by (simp add: getter_defs state_of_def doc_points_def)

lemma points_color: "getAttribute (doc (state_of doc_points)) 0 ''COLOR_0'' =
  Some (1, \<lparr>array = Uint8Array [255, 0, 0, 0, 255, 0], elementType = VEC3, normalized = True\<rparr>)"
  by (simp add: getter_defs state_of_def doc_points_def)

lemma priv_simplifyPoints_run:
  assumes "getAttribute (doc (unwelded e prim s)) prim ''POSITION'' = Some position"
    and "getAttribute (doc (unwelded e prim s)) prim ''COLOR_0'' = color"
    and "r_simplifier options = Some simp"
    and "ext_simplifyPoints simp = Some f"
    and "f True (positionArrayOf e position) 3 (pointsTarget options position)
           (colorArrayOf e position color) (colorStrideOf color) = Inr dst"
    and "ext_compactMesh simp dst = Inr (c, remap, u)"
  shows "priv_simplifyPoints e options prim s =
     (Inr (),
      (unwelded e prim s)
        \<lparr>useExperimentalFeatures := False,
         calls := calls s @ [pointsCall e options position color, Call_compactMesh dst],
         doc := writeAttributes prim remap u
                  (debug (Debug_vertices (getCount (snd position)) u None) (doc (unwelded e prim s)))\<rparr>)"
  unfolding priv_simplifyPoints_unfold using assms by simp

lemma priv_simplifyPoints_throws:
  assumes "getAttribute (doc (unwelded e prim s)) prim ''POSITION'' = Some position"
    and "getAttribute (doc (unwelded e prim s)) prim ''COLOR_0'' = color"
    and "r_simplifier options = Some simp"
    and "ext_simplifyPoints simp = Some f"
    and "f True (positionArrayOf e position) 3 (pointsTarget options position)
           (colorArrayOf e position color) (colorStrideOf color) = Inl msg"
  shows "priv_simplifyPoints e options prim s =
     (Inl (External msg),
      (unwelded e prim s)
        \<lparr>useExperimentalFeatures := True,
         calls := calls s @ [pointsCall e options position color]\<rparr>)"
  unfolding priv_simplifyPoints_unfold using assms by simp

lemma simplifyPrimitive_points:
  "getMode (doc s) prim = Some POINTS \<Longrightarrow>
   simplifyPrimitive e opts prim s = priv_simplifyPoints e (withDefaults opts) prim s"
  by (simp add: simplifyPrimitive_unfold)

lemma points_pos': "getAttribute (doc (unwelded e 0 (state_of doc_points))) 0 ''POSITION'' =
  Some (0, \<lparr>array = Float32Array [0, 0, 0, 1, 0, 0], elementType = VEC3, normalized = False\<rparr>)"
  unfolding points_unwelded by (rule points_pos)

lemma points_color': "getAttribute (doc (unwelded e 0 (state_of doc_points))) 0 ''COLOR_0'' =
  Some (1, \<lparr>array = Uint8Array [255, 0, 0, 0, 255, 0], elementType = VEC3, normalized = True\<rparr>)"
  unfolding points_unwelded by (rule points_color)

















































































































section \<open>The claims\<close>

text \<open>
  Claim C1, amended. After a successful run of \<open>simplifyPrimitive\<close> on a triangle
  primitive, the new index accessor holds the compacted indices as a Uint16Array exactly
  when the source vertex count (the count of POSITION before the run) is at most 65534,
  and as the Uint32Array otherwise; the count of unique vertices after compaction plays
  no part. Where every compacted index is below the source vertex count, the stored
  values are those of the compacted indices under either width.
\<close>

theorem index_width_by_source_vertex_count:
  assumes wf: "wf_document (doc s)"
    and mode: "getMode (doc s) prim = Some TRIANGLES"
    and pos: "getAttribute (doc s) prim ''POSITION'' = Some position"
    and run: "simplifyPrimitive e opts prim s = (Inr (), s')"
  shows "\<exists>simp srcIndices dst err c remap u dstIndices.
      simplifier opts = Some simp \<and> getIndices (doc s) prim = Some srcIndices \<and>
      simplifyResult e simp (withDefaults opts) position srcIndices = Inr (dst, err) \<and>
      ext_compactMesh simp dst = Inr (c, remap, u) \<and>
      getIndices (doc s') prim = Some dstIndices \<and>
      (getComponentType (snd dstIndices) = UNSIGNED_SHORT \<longleftrightarrow> getCount (snd position) \<le> 65534) \<and>
      (getComponentType (snd dstIndices) = UNSIGNED_INT \<longleftrightarrow> \<not> getCount (snd position) \<le> 65534) \<and>
      array_length (array (snd dstIndices)) = length c \<and>
      ((\<forall>i \<in> set c. unat i < getCount (snd position)) \<longrightarrow>
         array_values (array (snd dstIndices)) = map (\<lambda>i. of_nat (unat i)) c)"
proof -
  from mode have m: "getMode (doc s) prim \<noteq> Some POINTS" by simp
  from simplifyPrimitive_triangles_success [OF m run] pos
  obtain ix simp dst err c remap u where
    ix: "getIndices (doc s) prim = Some ix"
    and simp: "simplifier opts = Some simp"
    and res: "simplifyResult e simp (withDefaults opts) position ix = Inr (dst, err)"
    and cm: "ext_compactMesh simp dst = Inr (c, remap, u)"
    by auto
  from triangles_result_indices [OF wf m ix pos simp res cm] run
  obtain k where gi: "getIndices (doc s') prim = Some (k, (snd ix)\<lparr>array := narrowed (getCount (snd position)) c\<rparr>)"
    by auto
  have len: "array_length (narrowed (getCount (snd position)) c) = length c"
    by (simp add: narrowed_def new_Uint16Array_def)
  show ?thesis
    apply (rule exI [of _ simp], rule exI [of _ ix], rule exI [of _ dst], rule exI [of _ err])
    apply (rule exI [of _ c], rule exI [of _ remap], rule exI [of _ u])
    apply (rule exI [of _ "(k, (snd ix)\<lparr>array := narrowed (getCount (snd position)) c\<rparr>)"])
    using simp ix res cm gi len narrowed_values [of c "getCount (snd position)"]
    by (simp add: getComponentType_def narrowed_type)
qed

theorem index_width_by_source_vertex_count_witness:
  "wf_document (doc (state_of doc_quad)) \<and>
   getMode (doc (state_of doc_quad)) 0 = Some TRIANGLES \<and>
   fst (simplifyPrimitive env_ex (options_ex simplifier_ex (1 / 2)) 0 (state_of doc_quad)) = Inr () \<and>
   (\<exists>dstIndices.
      getIndices (doc (snd (simplifyPrimitive env_ex (options_ex simplifier_ex (1 / 2)) 0 (state_of doc_quad)))) 0
        = Some dstIndices \<and>
      getComponentType (snd dstIndices) = UNSIGNED_SHORT \<and>
      array_values (array (snd dstIndices)) = [0, 1, 2])"
proof -
  let ?run = "simplifyPrimitive env_ex (options_ex simplifier_ex (1 / 2)) 0 (state_of doc_quad)"
  from index_width_by_source_vertex_count [OF wf_state_quad quad_mode quad_pos quad_run_ok]
  obtain simp srcIndices dst err c remap u dstIndices where
    1: "simplifier (options_ex simplifier_ex (1 / 2)) = Some simp"
    and 2: "getIndices (doc (state_of doc_quad)) 0 = Some srcIndices"
    and 3: "simplifyResult env_ex simp (withDefaults (options_ex simplifier_ex (1 / 2)))
              (0, \<lparr>array = Float32Array [0, 0, 0, 1, 0, 0, 1, 1, 0, 0, 1, 0], elementType = VEC3,
                         normalized = False\<rparr>) srcIndices = Inr (dst, err)"
    and 4: "ext_compactMesh simp dst = Inr (c, remap, u)"
    and 5: "getIndices (doc (snd ?run)) 0 = Some dstIndices"
    and 6: "getComponentType (snd dstIndices) = UNSIGNED_SHORT \<longleftrightarrow>
              getCount (snd (0 :: nat, \<lparr>array = Float32Array [0, 0, 0, 1, 0, 0, 1, 1, 0, 0, 1, 0],
                 elementType = VEC3, normalized = False\<rparr>)) \<le> 65534"
    and 7: "(\<forall>i \<in> set c. unat i < getCount (snd (0 :: nat, \<lparr>array = Float32Array [0, 0, 0, 1, 0, 0, 1, 1, 0, 0, 1, 0],
                 elementType = VEC3, normalized = False\<rparr>))) \<longrightarrow>
              array_values (array (snd dstIndices)) = map (\<lambda>i. of_nat (unat i)) c"
    by blast
  have simp: "simp = simplifier_ex" using 1 by (simp add: options_ex_def)
  have "srcIndices = (1, \<lparr>array = Uint16Array [0, 1, 2, 0, 2, 3], elementType = SCALAR, normalized = False\<rparr>)"
    using 2 quad_ix by simp
  then have "dst = [0, 1, 2]" using 3 quad_res simp by simp
  then have c: "c = [0, 1, 2]" using 4 ex_cm simp by simp
  have "getComponentType (snd dstIndices) = UNSIGNED_SHORT" using 6 by (simp add: getCount_def)
  moreover have "array_values (array (snd dstIndices)) = [0, 1, 2]"
    using 7 unfolding c by (simp add: getCount_def)
  ultimately show ?thesis
    using wf_state_quad quad_mode quad_run_ok 5 by (metis fst_conv)
qed

text \<open>
  The claim as stated fails: 65535 source vertices of which 3 remain after compaction
  keep the Uint32Array.
\<close>

theorem index_width_counterexample:
  "fst (simplifyPrimitive env_ex (options_ex simplifier_ex 1) 0 (state_of doc_big)) = Inr () \<and>
   ext_compactMesh simplifier_ex [0, 1, 2] = Inr ([0, 1, 2], [0, 1, 2], 3) \<and>
   (3 :: nat) \<le> 65534 \<and>
   indexComponentType (doc (snd (simplifyPrimitive env_ex (options_ex simplifier_ex 1) 0 (state_of doc_big)))) 0
     = Some UNSIGNED_INT"
proof -
  have wf: "wf_document (doc (state_of doc_big))" using wf_doc_big by (simp add: state_of_def)
  have simp: "simplifier (options_ex simplifier_ex 1) = Some simplifier_ex" by (simp add: options_ex_def)
  from triangles_result_indices [OF wf big_mode big_ix big_pos simp big_res ex_cm]
  show ?thesis
    using ex_cm by (auto simp: indexComponentType_def getComponentType_def narrowed_type big_count)
qed

text \<open>
  Claim C2 fails on the code. The toggle is set before the call of \<open>simplifyPoints\<close> and
  cleared after it with no handler between: when the call throws, the error propagates
  with the toggle left enabled, though it was disabled before.
\<close>

theorem toggle_left_enabled_when_simplifyPoints_throws:
  "useExperimentalFeatures (state_of doc_points) = False \<and>
   fst (simplifyPrimitive env_ex (options_ex simplifier_throwing 0) 0 (state_of doc_points)) =
     Inl (External ''simplifyPoints failed'') \<and>
   useExperimentalFeatures
     (snd (simplifyPrimitive env_ex (options_ex simplifier_throwing 0) 0 (state_of doc_points))) = True"
proof -
  have r: "r_simplifier (withDefaults (options_ex simplifier_throwing 0)) = Some simplifier_throwing"
    by (simp add: withDefaults_def options_ex_def)
  have sp: "ext_simplifyPoints simplifier_throwing =
              Some (\<lambda>toggle ps stride target colors colorStride. Inl ''simplifyPoints failed'')"
    by (simp add: simplifier_throwing_def)
  have "simplifyPrimitive env_ex (options_ex simplifier_throwing 0) 0 (state_of doc_points) =
          priv_simplifyPoints env_ex (withDefaults (options_ex simplifier_throwing 0)) 0 (state_of doc_points)"
    by (rule simplifyPrimitive_points [OF points_mode])
  also note priv_simplifyPoints_throws [OF points_pos' points_color' r sp refl]
  finally show ?thesis by (simp add: state_of_def)
qed

text \<open>
  Claim C3 fails on the code. A COLOR_0 array of normalized unsigned bytes beside a
  floating-point POSITION is dequantized with the component type and the normalized flag
  of POSITION (line 211): the decimator receives the raw bytes 255 where the color's own
  type and flag give 1.
\<close>

theorem color_dequantized_as_position:
  "calls (snd (simplifyPrimitive env_ex (options_ex simplifier_ex 1) 0 (state_of doc_points))) =
     [Call_simplifyPoints True [0, 0, 0, 1, 0, 0] 3 2 (Some [255, 0, 0, 0, 255, 0]) (Some 1),
      Call_compactMesh [0, 1]] \<and>
   dequantizeAttributeArray env_ex (Uint8Array [255, 0, 0, 0, 255, 0]) UNSIGNED_BYTE True = [1, 0, 0, 0, 1, 0]"
proof -
  let ?position = "(0 :: nat, \<lparr>array = Float32Array [0, 0, 0, 1, 0, 0], elementType = VEC3, normalized = False\<rparr>)"
  let ?color = "Some (1 :: nat, \<lparr>array = Uint8Array [255, 0, 0, 0, 255, 0], elementType = VEC3, normalized = True\<rparr>)"
  let ?options = "withDefaults (options_ex simplifier_ex 1)"
  have t: "pointsTarget ?options ?position = 2"
    by (simp add: pointsTarget_def withDefaults_def options_ex_def getCount_def)
  have p: "positionArrayOf env_ex ?position = [0, 0, 0, 1, 0, 0]"
    by (simp add: positionArrayOf_def toFloat32_def)
  have c: "colorArrayOf env_ex ?position ?color = Some [255, 0, 0, 0, 255, 0]"
    by (simp add: colorArrayOf_def toFloat32_def env_ex_def getComponentType_def)
  have st: "colorStrideOf ?color = Some 1"
    by (simp add: colorStrideOf_def getComponentSize_def)
  have sp: "ext_simplifyPoints simplifier_ex =
              Some (\<lambda>toggle ps stride target colors colorStride.
                      Inr (map of_nat [0 ..< min (nat target) (length ps div stride)]))"
    by (simp add: simplifier_ex_def)
  have res: "(\<lambda>toggle ps stride target colors colorStride.
                 Inr (map of_nat [0 ..< min (nat target) (length ps div stride)]) :: string + 32 word list)
               True (positionArrayOf env_ex ?position) 3 (pointsTarget ?options ?position)
               (colorArrayOf env_ex ?position ?color) (colorStrideOf ?color) = Inr [0, 1]"
    unfolding t p by (simp add: upt_conv_Cons)
  have cm: "ext_compactMesh simplifier_ex [0, 1] = Inr ([0, 1], [0, 1], 2)"
    by (simp add: simplifier_ex_def compact_remap_def upt_conv_Cons)
  have r: "r_simplifier ?options = Some simplifier_ex"
    by (simp add: withDefaults_def options_ex_def)
  have d: "dequantizeAttributeArray env_ex (Uint8Array [255, 0, 0, 0, 255, 0]) UNSIGNED_BYTE True = [1, 0, 0, 0, 1, 0]"
    by (simp add: env_ex_def decodeNormalized_def)
  have "simplifyPrimitive env_ex (options_ex simplifier_ex 1) 0 (state_of doc_points) =
          priv_simplifyPoints env_ex ?options 0 (state_of doc_points)"
    by (rule simplifyPrimitive_points [OF points_mode])
  also note priv_simplifyPoints_run [OF points_pos' points_color' r sp res cm]
  finally have "calls (snd (simplifyPrimitive env_ex (options_ex simplifier_ex 1) 0 (state_of doc_points))) =
     [pointsCall env_ex ?options ?position ?color, Call_compactMesh [0, 1]]"
    by (simp add: state_of_def)
  then show ?thesis using d unfolding pointsCall_def t p c st by simp
qed



text \<open>
  Claim C5. Let an accessor \<open>x\<close> of the document be referenced by a primitive \<open>B\<close> other
  than the triangle primitive \<open>A\<close> that \<open>simplifyPrimitive\<close> works on. Whatever the run's
  outcome, \<open>B\<close> is the same afterwards and \<open>x\<close> is still in the document with the same
  buffer and metadata. When the run succeeds, every reference of \<open>A\<close> is to an accessor
  that was not in the document before. An accessor that the run disposes of was not
  referenced by any other primitive.
\<close>

theorem copy_on_write_isolation:
  assumes wf: "wf_document (doc s)"
    and mode: "getMode (doc s) A = Some TRIANGLES"
    and B: "B \<noteq> A" "getPrimitive (doc s) B = Some pb" "x \<in> set (allRefs pb)"
    and x: "getAccessor (doc s) x = Some acc"
    and run: "simplifyPrimitive e opts A s = (r, s')"
  shows "getPrimitive (doc s') B = Some pb \<and> getAccessor (doc s') x = Some acc \<and>
         (r = Inr () \<longrightarrow>
            (\<exists>pa'. getPrimitive (doc s') A = Some pa' \<and>
               (\<forall>y \<in> set (allRefs pa'). getAccessor (doc s) y = None \<and> getAccessor (doc s') y \<noteq> None))) \<and>
         (\<forall>y. getAccessor (doc s) y \<noteq> None \<and> getAccessor (doc s') y = None \<longrightarrow>
            (\<forall>q pq. q \<noteq> A \<and> getPrimitive (doc s) q = Some pq \<longrightarrow> y \<notin> set (allRefs pq)))"
proof -
  from mode have m: "getMode (doc s) A \<noteq> Some POINTS" by simp
  have fr: "frames A (doc s) (doc s')" by (rule triangles_run_frames [OF wf m run])
  have wf': "wf_document (doc s')" by (rule frames_wf [OF fr])
  have 1: "getPrimitive (doc s') B = Some pb" using fr B unfolding frames_def by simp
  have 2: "getAccessor (doc s') x = Some acc" using fr B x unfolding frames_def by blast
  have 3: "r = Inr () \<longrightarrow>
            (\<exists>pa'. getPrimitive (doc s') A = Some pa' \<and>
               (\<forall>y \<in> set (allRefs pa'). getAccessor (doc s) y = None \<and> getAccessor (doc s') y \<noteq> None))"
  proof
    assume "r = Inr ()"
    then have ok: "simplifyPrimitive e opts A s = (Inr (), s')" using run by simp
    obtain pa where pa: "getPrimitive (doc s) A = Some pa"
      using mode by (auto simp: getMode_def)
    from simplifyPrimitive_triangles_success [OF m ok] triangles_fresh [OF wf pa]
    obtain pa' where pa': "getPrimitive (doc s') A = Some pa'"
      and fresh: "\<forall>y \<in> set (allRefs pa'). nextId (doc s) \<le> y"
      by fastforce
    have "(A, pa') \<in> set (primitives (doc s'))" using pa' unfolding getPrimitive_def by (rule map_of_SomeD)
    then have res: "\<forall>y \<in> set (allRefs pa'). getAccessor (doc s') y \<noteq> None"
      using wf_refs [OF wf'] by blast
    have "\<forall>y \<in> set (allRefs pa'). getAccessor (doc s) y = None"
    proof
      fix y assume "y \<in> set (allRefs pa')"
      then have "nextId (doc s) \<le> y" using fresh by simp
      then show "getAccessor (doc s) y = None"
        using getAccessor_lt [OF wf, of y] by (cases "getAccessor (doc s) y") auto
    qed
    then show "\<exists>pa'. getPrimitive (doc s') A = Some pa' \<and>
               (\<forall>y \<in> set (allRefs pa'). getAccessor (doc s) y = None \<and> getAccessor (doc s') y \<noteq> None)"
      using pa' res by blast
  qed
  have 4: "\<forall>y. getAccessor (doc s) y \<noteq> None \<and> getAccessor (doc s') y = None \<longrightarrow>
            (\<forall>q pq. q \<noteq> A \<and> getPrimitive (doc s) q = Some pq \<longrightarrow> y \<notin> set (allRefs pq))"
    using fr unfolding frames_def by (metis option.distinct(1) not_Some_eq)
  show ?thesis using 1 2 3 4 by blast
qed

theorem copy_on_write_isolation_witness:
  "wf_document (doc (state_of doc_shared)) \<and>
   getMode (doc (state_of doc_shared)) 0 = Some TRIANGLES \<and>
   getPrimitive (doc (state_of doc_shared)) 1 =
     Some \<lparr>mode = TRIANGLES, indices = Some 2, attributes = [(''POSITION'', 0)], targets = []\<rparr> \<and>
   getAttribute (doc (state_of doc_shared)) 0 ''POSITION'' = getAttribute (doc (state_of doc_shared)) 1 ''POSITION'' \<and>
   getAccessor (doc (state_of doc_shared)) 0 =
     Some \<lparr>array = Float32Array [0, 0, 0, 1, 0, 0, 1, 1, 0, 0, 1, 0], elementType = VEC3, normalized = False\<rparr> \<and>
   fst (simplifyPrimitive env_ex (options_ex simplifier_ex (1 / 2)) 0 (state_of doc_shared)) = Inr () \<and>
   getPrimitive (doc (snd (simplifyPrimitive env_ex (options_ex simplifier_ex (1 / 2)) 0 (state_of doc_shared)))) 1 =
     Some \<lparr>mode = TRIANGLES, indices = Some 2, attributes = [(''POSITION'', 0)], targets = []\<rparr> \<and>
   getAccessor (doc (snd (simplifyPrimitive env_ex (options_ex simplifier_ex (1 / 2)) 0 (state_of doc_shared)))) 0 =
     Some \<lparr>array = Float32Array [0, 0, 0, 1, 0, 0, 1, 1, 0, 0, 1, 0], elementType = VEC3, normalized = False\<rparr> \<and>
   (\<exists>pa'. getPrimitive (doc (snd (simplifyPrimitive env_ex (options_ex simplifier_ex (1 / 2)) 0 (state_of doc_shared)))) 0
             = Some pa' \<and> 0 \<notin> set (allRefs pa'))"
proof -
  let ?pb = "\<lparr>mode = TRIANGLES, indices = Some 2, attributes = [(''POSITION'', 0 :: nat)], targets = []\<rparr>"
  have ne: "(1 :: nat) \<noteq> 0" by simp
  have ref: "0 \<in> set (allRefs ?pb)" by (simp add: allRefs_def primitiveRefs_def)
  have same: "getAttribute (doc (state_of doc_shared)) 0 ''POSITION'' =
              getAttribute (doc (state_of doc_shared)) 1 ''POSITION''"
    by (simp add: getter_defs state_of_def doc_shared_def)
  have ok: "fst (simplifyPrimitive env_ex (options_ex simplifier_ex (1 / 2)) 0 (state_of doc_shared)) = Inr ()"
    using shared_run_ok by (metis fst_conv)
  from copy_on_write_isolation [OF wf_doc_shared shared_mode ne shared_B ref shared_x shared_run_ok]
  show ?thesis
    using wf_doc_shared shared_mode shared_B shared_x same ok by (metis option.distinct(1))
qed



text \<open>
  Claim C7. When the options hold no simplifier, \<open>simplify\<close> throws before it returns a
  transform: nothing runs on the document, which is left as it was (no call is made, so
  no weld pass either).
\<close>

theorem simplify_requires_simplifier:
  assumes "simplifier opts = None"
  shows "simplify e opts = Inl (Error ''simplify: simplifier dependency required'') \<and>
         transform_simplify e opts ctx s = (Inl (Error ''simplify: simplifier dependency required''), s)"
  using assms by (simp add: simplify_def transform_simplify_def withDefaults_def)

theorem simplify_requires_simplifier_witness:
  "simplifier (options_of None) = None \<and>
   transform_simplify env_ex (options_of None) None (state_of doc_quad) =
     (Inl (Error ''simplify: simplifier dependency required''), state_of doc_quad) \<and>
   calls (snd (transform_simplify env_ex (options_of None) None (state_of doc_quad))) = []"
  using simplify_requires_simplifier [of "options_of None" env_ex None "state_of doc_quad"]
  by (simp add: options_of_def state_of_def)







end
